theory Spec2Isabelle
  imports
    Main
    "HOL-Library.Sublist"
    "HOL-Library.Char_ord"
    "HOL-Library.List_Lexorder"
    "HOL-Library.Product_Lexorder"
    "HOL-Library.Multiset"
begin

unbundle bit_operations_syntax

section \<open>Enclosure management plugin (middlewared/plugins/enclosure.py)\<close>

text \<open>
  A shallow embedding of the enclosure plugin: the status-page decoder
  (\<open>Enclosure._parse\<close>), the raw value packing (\<open>Enclosure._parse_raw_value\<close>), the
  model classifier (\<open>Enclosure._set_model\<close>), the element factory
  (\<open>Enclosure._enclosure_element\<close>), the slot reconciliation
  (\<open>Enclosure.map_disks_to_enclosure_slots\<close>), the identify and fault flags of
  \<open>ArrayDevSlot\<close>, the collection query (\<open>EnclosureService.query\<close>) and the
  slot-control dispatcher (\<open>EnclosureService.set_slot_status\<close>).

  Python integers are \<open>int\<close>; Python strings are \<open>string\<close> (characters restricted to
  one byte); exceptions are values of type \<open>error\<close>, carried in the left summand.
  What the plugin reads from the operating system, the SES device and the middleware
  (sysfs directories, the SES status map, \<open>enclosure.map_nvme\<close>,
  \<open>enclosure.map_enclosures\<close>, the label table) is a parameter of the model.
\<close>

subsection \<open>Python string primitives\<close>

text \<open>
  \<open>str.isspace\<close> on one character, for the code points below 256. It is the class of
  \<open>\s\<close> in a \<open>str\<close> pattern and the separator class of \<open>str.split()\<close> and
  \<open>str.strip()\<close>.
\<close>

definition is_space :: "char \<Rightarrow> bool" where
  "is_space c =
     (let n = (of_char c :: nat)
      in (9 \<le> n \<and> n \<le> 13) \<or> (28 \<le> n \<and> n \<le> 32) \<or> n = 133 \<or> n = 160)"

definition is_digit :: "char \<Rightarrow> bool" where
  "is_digit c = (let n = (of_char c :: nat) in 48 \<le> n \<and> n \<le> 57)"

text \<open>The character class \<open>[0-9a-f ]\<close> of the raw hex-byte line.\<close>

definition is_hex_or_blank :: "char \<Rightarrow> bool" where
  "is_hex_or_blank c =
     (let n = (of_char c :: nat)
      in (48 \<le> n \<and> n \<le> 57) \<or> (97 \<le> n \<and> n \<le> 102) \<or> n = 32)"

text \<open>\<open>s.strip()\<close>.\<close>

definition strip :: "string \<Rightarrow> string" where
  "strip s = rev (dropWhile is_space (rev (dropWhile is_space s)))"

text \<open>\<open>s.split(sep)\<close> for a separator of one character: empty pieces are kept.\<close>

fun split_on :: "char \<Rightarrow> string \<Rightarrow> string list" where
  "split_on sep [] = [[]]"
| "split_on sep (c # cs) =
     (if c = sep then [] # split_on sep cs
      else (case split_on sep cs of
              [] \<Rightarrow> [[c]]
            | p # ps \<Rightarrow> (c # p) # ps))"

text \<open>\<open>s.split()\<close>: the maximal runs of characters that are not white space.\<close>

fun split_ws_acc :: "string \<Rightarrow> string \<Rightarrow> string list" where
  "split_ws_acc word [] = (if word = [] then [] else [rev word])"
| "split_ws_acc word (c # cs) =
     (if is_space c
      then (if word = [] then split_ws_acc [] cs else rev word # split_ws_acc [] cs)
      else split_ws_acc (c # word) cs)"

definition split_ws :: "string \<Rightarrow> string list" where
  "split_ws s = split_ws_acc [] s"

text \<open>\<open>sep.join(words)\<close>.\<close>

fun join :: "string \<Rightarrow> string list \<Rightarrow> string" where
  "join sep [] = []"
| "join sep [w] = w"
| "join sep (w # ws) = w @ sep @ join sep ws"

text \<open>
  \<open>s.replace(pat, "")\<close> for a non-empty \<open>pat\<close>: every occurrence, left to right, without
  overlap.
\<close>

fun remove_all :: "string \<Rightarrow> string \<Rightarrow> string" where
  "remove_all pat [] = []"
| "remove_all pat (c # cs) =
     (if pat \<noteq> [] \<and> prefix pat (c # cs)
      then remove_all pat (drop (length pat - 1) cs)
      else c # remove_all pat cs)"

text \<open>\<open>s.removeprefix(p)\<close>.\<close>

definition removeprefix :: "string \<Rightarrow> string \<Rightarrow> string" where
  "removeprefix s p = (if prefix p s then drop (length p) s else s)"

text \<open>\<open>c.upper()\<close> and \<open>c.lower()\<close> on an ASCII character; other characters are kept.\<close>

definition upper_char :: "char \<Rightarrow> char" where
  "upper_char c =
     (let n = (of_char c :: nat)
      in if 97 \<le> n \<and> n \<le> 122 then char_of (n - 32) else c)"

definition lower_char :: "char \<Rightarrow> char" where
  "lower_char c =
     (let n = (of_char c :: nat)
      in if 65 \<le> n \<and> n \<le> 90 then char_of (n + 32) else c)"

text \<open>\<open>str(n)\<close> for an integer.\<close>

fun str_nat :: "nat \<Rightarrow> string" where
  "str_nat n =
     (if n < 10 then [''0123456789'' ! n]
      else str_nat (n div 10) @ [''0123456789'' ! (n mod 10)])"

definition str_int :: "int \<Rightarrow> string" where
  "str_int i = (if i < 0 then CHR ''-'' # str_nat (nat (- i)) else str_nat (nat i))"

text \<open>\<open>int(digits)\<close> for a non-empty run of ASCII digits.\<close>

definition digit_val :: "char \<Rightarrow> nat" where
  "digit_val c = of_char c - 48"

definition int_of_digits :: "string \<Rightarrow> int" where
  "int_of_digits ds = int (foldl (\<lambda>acc c. 10 * acc + digit_val c) 0 ds)"

subsection \<open>Errors\<close>

datatype errno = ENOENT | Errno_default

text \<open>
  The messages of \<open>CallError\<close> are kept structured: the f-string's arguments instead of
  its text.
\<close>

datatype call_msg =
    Enclosure_not_found string
  | Slot_not_found int
  | Failed_to_set string int string

datatype error =
    ValueError
  | KeyError
  | CallError call_msg errno

subsection \<open>Raw value packing: \<open>Enclosure._parse_raw_value\<close>\<close>

text \<open>
  \<open>int(s, 16)\<close> on a string of hexadecimal digits. The empty string raises
  \<open>ValueError\<close>. The model is exact on strings over \<open>[0-9a-fA-F]\<close>, which is what the
  decoder passes (pieces of a match of \<open>[0-9a-f ]{11}\<close>); any other character is
  reported as \<open>ValueError\<close>.
\<close>

definition hex_val :: "char \<Rightarrow> nat option" where
  "hex_val c =
     (let n = (of_char c :: nat)
      in if 48 \<le> n \<and> n \<le> 57 then Some (n - 48)
         else if 97 \<le> n \<and> n \<le> 102 then Some (n - 87)
         else if 65 \<le> n \<and> n \<le> 70 then Some (n - 55)
         else None)"

fun hex_acc :: "nat \<Rightarrow> string \<Rightarrow> nat option" where
  "hex_acc acc [] = Some acc"
| "hex_acc acc (c # cs) =
     (case hex_val c of None \<Rightarrow> None | Some d \<Rightarrow> hex_acc (16 * acc + d) cs)"

definition int16 :: "string \<Rightarrow> error + int" where
  "int16 s =
     (if s = [] then Inl ValueError
      else (case hex_acc 0 s of None \<Rightarrow> Inl ValueError | Some n \<Rightarrow> Inr (int n)))"

fun int16_all :: "string list \<Rightarrow> error + int list" where
  "int16_all [] = Inr []"
| "int16_all (p # ps) =
     (case int16 (remove_all ''0x'' p) of
        Inl e \<Rightarrow> Inl e
      | Inr v \<Rightarrow> (case int16_all ps of Inl e \<Rightarrow> Inl e | Inr vs \<Rightarrow> Inr (v # vs)))"

text \<open>
  The loop \<open>for i, v in enumerate(value): newvalue |= v << (2 * (3 - i)) * 4\<close>. A
  negative shift count raises \<open>ValueError\<close>, which happens at the fifth value.
\<close>

fun pack_bytes :: "nat \<Rightarrow> int \<Rightarrow> int list \<Rightarrow> error + int" where
  "pack_bytes i newvalue [] = Inr newvalue"
| "pack_bytes i newvalue (v # vs) =
     (let sh = (2 * (3 - int i)) * 4
      in if sh < 0 then Inl ValueError
         else pack_bytes (Suc i) (newvalue OR push_bit (nat sh) v) vs)"

datatype raw_input = Bytes "int list" | Text string

fun parse_raw_value :: "raw_input \<Rightarrow> error + int" where
  "parse_raw_value (Bytes vs) = pack_bytes 0 0 vs"
| "parse_raw_value (Text s) =
     (case int16_all (split_on CHR '' '' s) of
        Inl e \<Rightarrow> Inl e
      | Inr vs \<Rightarrow> pack_bytes 0 0 vs)"

text \<open>The inverse stated by the specification: byte \<open>i\<close> of a packed value.\<close>

definition extract_byte :: "nat \<Rightarrow> int \<Rightarrow> int" where
  "extract_byte i raw = drop_bit ((2 * (3 - i)) * 4) raw AND 255"

text \<open>
  The packing stated by the specification: the values \<open>byte[i] << (2 * (3 - i)) * 4\<close>
  of the positions \<open>i\<close> of the list, combined by bitwise or.
\<close>

definition packed_formula :: "int list \<Rightarrow> int" where
  "packed_formula bs =
     foldl (OR) 0 (map (\<lambda>i. push_bit ((2 * (3 - i)) * 4) (bs ! i)) [0..<length bs])"

subsection \<open>Elements\<close>

text \<open>
  The classes of the element hierarchy. \<open>Element\<close> itself is the generic kind, whose
  name is the one given by the status page.
\<close>

datatype kind =
    AlarmElm | CommPort | CurrSensor | EnclosureElm | VoltSensor | Cooling
  | TempSensor | PowerSupply | ArrayDevSlot | SASConnector | SASExpander | Element

text \<open>
  \<open>value_raw\<close> is either the packed integer or, when the slot state comes from sysfs,
  the status string.
\<close>

datatype value_raw = Packed int | Status string

text \<open>
  The attributes \<open>_identify\<close> and \<open>_fault\<close> exist only when \<open>value_raw\<close> is not an
  integer (\<open>Element.__init__\<close>): the outer \<open>None\<close> is the absent attribute, the inner
  one Python's \<open>None\<close>. \<open>devname\<close> exists on \<open>ArrayDevSlot\<close> only.
\<close>

record element =
  el_kind :: kind
  el_name :: string
  el_slot :: int
  el_value_raw :: value_raw
  el_descriptor :: string
  el_identify :: "string option option"
  el_fault :: "string option option"
  el_devname :: "string option"

text \<open>The class attribute \<open>name\<close> of each subclass.\<close>

fun kind_name :: "kind \<Rightarrow> string \<Rightarrow> string" where
  "kind_name AlarmElm given = ''Audible alarm''"
| "kind_name CommPort given = ''Communication Port''"
| "kind_name CurrSensor given = ''Current Sensor''"
| "kind_name EnclosureElm given = ''Enclosure''"
| "kind_name VoltSensor given = ''Voltage Sensor''"
| "kind_name Cooling given = ''Cooling''"
| "kind_name TempSensor given = ''Temperature Sensor''"
| "kind_name PowerSupply given = ''Power Supply''"
| "kind_name ArrayDevSlot given = ''Array Device Slot''"
| "kind_name SASConnector given = ''SAS Connector''"
| "kind_name SASExpander given = ''SAS Expander''"
| "kind_name Element given = given"

text \<open>
  \<open>Element.__init__\<close>, called with the keywords \<open>slot\<close>, \<open>value_raw\<close>, \<open>desc\<close> and, from
  \<open>ArrayDevSlot\<close> only, \<open>identify\<close> and \<open>fault\<close> (\<open>flags\<close> is \<open>None\<close> when these two
  keywords are not passed). With a string \<open>value_raw\<close> the constructor pops
  \<open>identify\<close> and \<open>fault\<close>, which raises \<open>KeyError\<close> when they were not passed.
\<close>

definition Element_init ::
  "kind \<Rightarrow> string \<Rightarrow> int \<Rightarrow> value_raw \<Rightarrow> string
     \<Rightarrow> (string option \<times> string option) option \<Rightarrow> error + element" where
  "Element_init k given slot v desc flags =
     (let base = \<lparr> el_kind = k, el_name = kind_name k given, el_slot = slot,
                   el_value_raw = v, el_descriptor = desc,
                   el_identify = None, el_fault = None, el_devname = None \<rparr>
      in case v of
           Packed n \<Rightarrow> Inr base
         | Status s \<Rightarrow>
             (case flags of
                None \<Rightarrow> Inl KeyError
              | Some (ident, fault) \<Rightarrow>
                  Inr (base\<lparr> el_identify := Some ident, el_fault := Some fault \<rparr>)))"

text \<open>
  \<open>ArrayDevSlot.__init__\<close>: the device name is the first piece of \<open>dev\<close>, split at
  commas, that does not start with \<open>pass\<close>.
\<close>

definition ArrayDevSlot_init ::
  "int \<Rightarrow> value_raw \<Rightarrow> string \<Rightarrow> string \<Rightarrow> string option \<Rightarrow> string option
     \<Rightarrow> error + element" where
  "ArrayDevSlot_init slot v desc dev ident fault =
     (case Element_init ArrayDevSlot [] slot v desc (Some (ident, fault)) of
        Inl e \<Rightarrow> Inl e
      | Inr el \<Rightarrow>
          (case filter (\<lambda>y. \<not> prefix ''pass'' y) (split_on CHR '','' (strip dev)) of
             [] \<Rightarrow> Inr (el\<lparr> el_devname := Some [] \<rparr>)
           | d # ds \<Rightarrow> Inr (el\<lparr> el_devname := Some d \<rparr>)))"

text \<open>
  \<open>ArrayDevSlot.identify\<close> and \<open>ArrayDevSlot.fault\<close>. A string \<open>value_raw\<close> without the
  attribute does not occur (\<open>Element_init\<close>); the bit test on it would raise
  \<open>TypeError\<close> and is modelled as \<open>False\<close>.
\<close>

definition identify :: "element \<Rightarrow> bool" where
  "identify el =
     (case el_identify el of
        Some i \<Rightarrow> i \<noteq> Some ''0''
      | None \<Rightarrow>
          (case el_value_raw el of
             Packed n \<Rightarrow> drop_bit 8 n AND 2 \<noteq> 0
           | Status s \<Rightarrow> False))"

definition fault :: "element \<Rightarrow> bool" where
  "fault el =
     (case el_fault el of
        Some f \<Rightarrow> f \<noteq> Some ''0''
      | None \<Rightarrow>
          (case el_value_raw el of
             Packed n \<Rightarrow> n AND 32 \<noteq> 0
           | Status s \<Rightarrow> False))"

text \<open>
  The reading of the specification's words for a flag taken from the operating
  system, "non-zero means active": the string is a decimal numeral and its value is
  not zero. It is compared with the test the code makes.
\<close>

definition spec_denotes_nonzero :: "string \<Rightarrow> bool" where
  "spec_denotes_nonzero s = (s \<noteq> [] \<and> list_all is_digit s \<and> int_of_digits s \<noteq> 0)"

subsection \<open>Model classifier: \<open>Enclosure._set_model\<close>\<close>

text \<open>
  \<open>REGEX.match(s)\<close> anchors at the start of \<open>s\<close> only. Each pattern of the plugin is a
  finite alternation of literals, so a match is a prefix test against the strings of
  the alternation.
\<close>

definition starts_with_any :: "string list \<Rightarrow> string \<Rightarrow> bool" where
  "starts_with_any ps s = list_ex (\<lambda>p. prefix p s) ps"

definition M_SERIES_REGEX :: "string list" where
  "M_SERIES_REGEX =
     [''ECStream 4024Sp'', ''ECStream 4024Ss'', ''iX 4024Sp'', ''iX 4024Ss'']"

definition R_SERIES_REGEX :: "string list" where
  "R_SERIES_REGEX =
     [''ECStream FS1'', ''ECStream FS2'', ''ECStream DSS212Sp'', ''ECStream DSS212Ss'',
      ''iX FS1'', ''iX FS2'', ''iX DSS212Sp'', ''iX DSS212Ss'']"

definition R20_REGEX :: "string list" where
  "R20_REGEX = [''iX TrueNAS R20p'', ''iX 2012Sp'', ''SMC SC826-P'']"

definition R50_REGEX :: "string list" where
  "R50_REGEX = [''iX eDrawer4048S1'', ''iX eDrawer4048S2'']"

definition X_SERIES_REGEX :: "string list" where
  "X_SERIES_REGEX = [''CELESTIC P3215-O'', ''CELESTIC P3217-B'']"

definition ES24_REGEX :: "string list" where
  "ES24_REGEX = [''ECStream 4024J'', ''iX 4024J'']"

definition ES24F_REGEX :: "string list" where
  "ES24F_REGEX =
     [''ECStream 2024Jp'', ''ECStream 2024Js'', ''iX 2024Jp'', ''iX 2024Js'']"

definition MINI_REGEX :: "string list" where
  "MINI_REGEX = [''TRUENAS-MINI'', ''FREENAS-MINI'']"

definition R20_VARIANT :: "string list" where
  "R20_VARIANT = [''TRUENAS-R20'', ''TRUENAS-R20A'', ''TRUENAS-R20B'']"

text \<open>
  The classifier returns the pair \<open>(model, controller)\<close> it leaves in the object, which
  \<open>Enclosure.__init__\<close> initialises to \<open>("", False)\<close>. \<open>data\<close> is the raw configuration
  text.
\<close>

definition set_model :: "string \<Rightarrow> string \<Rightarrow> string \<Rightarrow> string \<times> bool" where
  "set_model encname product_name data =
     (if starts_with_any M_SERIES_REGEX encname then (''M Series'', True)
      else if starts_with_any R_SERIES_REGEX encname \<or> starts_with_any R20_REGEX encname
              \<or> starts_with_any R50_REGEX encname
        then (remove_all ''TRUENAS-'' product_name, True)
      else if encname = ''AHCI SGPIO Enclosure 2.00''
        then (if product_name \<in> set R20_VARIANT
                then (remove_all ''TRUENAS-'' product_name, True)
              else if starts_with_any MINI_REGEX product_name
                then (product_name, True)
              else ([], True))
      else if starts_with_any X_SERIES_REGEX encname then (''X Series'', True)
      else if prefix ''BROADCOM VirtualSES 03'' encname then (''H Series'', True)
      else if prefix ''QUANTA JB9 SIM'' encname then (''E60'', False)
      else if prefix ''Storage 1729'' encname then (''E24'', False)
      else if prefix ''ECStream 3U16+4R-4X6G.3'' encname
        then (if sublist ''SD_9GV12P1J_12R6K4'' data then (''Z Series'', True)
              else (''E16'', False))
      else if prefix ''ECStream 3U16RJ-AC.r3'' encname then (''E16'', False)
      else if prefix ''HGST H4102-J'' encname then (''ES102'', False)
      else if prefix ''VikingES NDS-41022-BB'' encname
              \<or> prefix ''VikingES VDS-41022-BB'' encname
        then (''ES102G2'', False)
      else if prefix ''CELESTIC R0904'' encname then (''ES60'', False)
      else if prefix ''HGST H4060-J'' encname then (''ES60G2'', False)
      else if starts_with_any ES24_REGEX encname then (''ES24'', False)
      else if starts_with_any ES24F_REGEX encname then (''ES24F'', False)
      else if prefix ''CELESTIC X2012'' encname then (''ES12'', False)
      else ([], False))"

text \<open>The conditions of the \<open>if\<close>/\<open>elif\<close> chain: an input matches a rule when one holds.\<close>

definition matches_rule :: "string \<Rightarrow> bool" where
  "matches_rule encname =
     (starts_with_any M_SERIES_REGEX encname
      \<or> starts_with_any R_SERIES_REGEX encname
      \<or> starts_with_any R20_REGEX encname
      \<or> starts_with_any R50_REGEX encname
      \<or> encname = ''AHCI SGPIO Enclosure 2.00''
      \<or> starts_with_any X_SERIES_REGEX encname
      \<or> prefix ''BROADCOM VirtualSES 03'' encname
      \<or> prefix ''QUANTA JB9 SIM'' encname
      \<or> prefix ''Storage 1729'' encname
      \<or> prefix ''ECStream 3U16+4R-4X6G.3'' encname
      \<or> prefix ''ECStream 3U16RJ-AC.r3'' encname
      \<or> prefix ''HGST H4102-J'' encname
      \<or> prefix ''VikingES NDS-41022-BB'' encname
      \<or> prefix ''VikingES VDS-41022-BB'' encname
      \<or> prefix ''CELESTIC R0904'' encname
      \<or> prefix ''HGST H4060-J'' encname
      \<or> starts_with_any ES24_REGEX encname
      \<or> starts_with_any ES24F_REGEX encname
      \<or> prefix ''CELESTIC X2012'' encname)"

subsection \<open>Element factory: \<open>Enclosure._enclosure_element\<close>\<close>

text \<open>
  The factory reads \<open>self.encname\<close> and \<open>self.model\<close>. It returns \<open>None\<close> for a phantom
  drive slot. Only the \<open>ArrayDevSlot\<close> branch passes \<open>dev\<close>, \<open>identify\<close> and \<open>fault\<close> on.
\<close>

definition enclosure_element ::
  "string \<Rightarrow> string \<Rightarrow> int \<Rightarrow> string \<Rightarrow> value_raw \<Rightarrow> string \<Rightarrow> string
     \<Rightarrow> string option \<Rightarrow> string option \<Rightarrow> error + element option" where
  "enclosure_element encname model slot name v desc dev ident flt =
     (let other = (\<lambda>k. case Element_init k name slot v desc None of
                          Inl e \<Rightarrow> Inl e | Inr el \<Rightarrow> Inr (Some el))
      in if name = ''Audible alarm'' then other AlarmElm
         else if name = ''Communication Port'' then other CommPort
         else if name = ''Current Sensor'' then other CurrSensor
         else if name = ''Enclosure'' then other EnclosureElm
         else if name = ''Voltage Sensor'' then other VoltSensor
         else if name = ''Cooling'' then other Cooling
         else if name = ''Temperature Sensors'' then other TempSensor
         else if name = ''Power Supply'' then other PowerSupply
         else if name = ''Array Device Slot''
           then (if prefix ''ECStream 3U16+4R-4X6G.3'' encname \<and> slot > 16 then Inr None
                 else if prefix ''R50, '' model \<and> slot \<ge> 25 then Inr None
                 else (case ArrayDevSlot_init slot v desc dev ident flt of
                         Inl e \<Rightarrow> Inl e | Inr el \<Rightarrow> Inr (Some el)))
         else if name = ''SAS Connector'' then other SASConnector
         else if name = ''SAS Expander'' then other SASExpander
         else other Element)"

subsection \<open>Slot reconciliation: \<open>Enclosure.map_disks_to_enclosure_slots\<close>\<close>

text \<open>
  One child directory of \<open>/sys/class/enclosure/<pci>\<close>, as the function reads it:
  \<open>sd_slot\<close> is \<open>int((i / 'slot').read_text().strip())\<close>, \<open>None\<close> when the read raises
  \<open>FileNotFoundError\<close> or the conversion \<open>ValueError\<close>; the three texts are \<open>None\<close> when
  the file is missing; \<open>sd_block\<close> is the listing of \<open>device/block\<close>, \<open>None\<close> when that
  directory is missing.
\<close>

record sysfs_dir =
  sd_name :: string
  sd_slot :: "int option"
  sd_status :: "string option"
  sd_locate :: "string option"
  sd_fault :: "string option"
  sd_block :: "string list option"

text \<open>One entry of \<open>EnclosureDevice.status()['elements']\<close>.\<close>

record ses_element =
  se_type :: int
  se_descriptor :: string
  se_status :: "int list"

text \<open>\<open>d[k] = v\<close> on a dictionary kept as an association list with distinct keys.\<close>

fun dict_set :: "'k \<Rightarrow> 'v \<Rightarrow> ('k \<times> 'v) list \<Rightarrow> ('k \<times> 'v) list" where
  "dict_set k v [] = [(k, v)]"
| "dict_set k v ((k', v') # m) =
     (if k = k' then (k, v) # m else (k', v') # dict_set k v m)"

type_synonym slot_mapping = "(int \<times> (string \<times> string \<times> string \<times> string)) list"

text \<open>The body of the \<open>try\<close> statement for one directory; \<open>None\<close> is \<open>continue\<close>.\<close>

definition read_slot_dir ::
  "sysfs_dir \<Rightarrow> (int \<times> (string \<times> string \<times> string \<times> string)) option" where
  "read_slot_dir d =
     (case sd_slot d of
        None \<Rightarrow> None
      | Some slot \<Rightarrow>
     (case sd_status d of
        None \<Rightarrow> None
      | Some slot_status \<Rightarrow>
     (case sd_locate d of
        None \<Rightarrow> None
      | Some ident \<Rightarrow>
     (case sd_fault d of
        None \<Rightarrow> None
      | Some flt \<Rightarrow>
          (let dev = (case sd_block d of
                        None \<Rightarrow> []
                      | Some [] \<Rightarrow> []
                      | Some (b # bs) \<Rightarrow> b)
           in Some (slot, (dev, strip slot_status, strip ident, strip flt)))))))"

definition ignore :: "string list" where
  "ignore = [''4'', ''5'', ''6'', ''7'']"

fun collect_mapping :: "bool \<Rightarrow> sysfs_dir list \<Rightarrow> slot_mapping \<Rightarrow> slot_mapping" where
  "collect_mapping is_hseries [] mapping = mapping"
| "collect_mapping is_hseries (d # ds) mapping =
     (if is_hseries \<and> sd_name d \<in> set ignore then collect_mapping is_hseries ds mapping
      else (case read_slot_dir d of
              None \<Rightarrow> collect_mapping is_hseries ds mapping
            | Some (slot, v) \<Rightarrow> collect_mapping is_hseries ds (dict_set slot v mapping)))"

text \<open>
  \<open>disk_raw_values\<close>: the status bytes of the SES elements of type 23 whose descriptor is
  not \<open><empty>\<close>.
\<close>

fun collect_raw_values ::
  "(int \<times> ses_element) list \<Rightarrow> (int \<times> int list) list \<Rightarrow> (int \<times> int list) list" where
  "collect_raw_values [] acc = acc"
| "collect_raw_values ((k, v) # kvs) acc =
     (if se_type v = 23 \<and> se_descriptor v \<noteq> ''<empty>''
      then collect_raw_values kvs (dict_set k (se_status v) acc)
      else collect_raw_values kvs acc)"

text \<open>
  The final loop \<open>for slot in sorted(mapping)\<close>, returning the elements it appends to
  the enclosure. An exception of \<open>_parse_raw_value\<close> leaves the function.
\<close>

fun add_slots ::
  "string \<Rightarrow> string \<Rightarrow> bool \<Rightarrow> slot_mapping \<Rightarrow> (int \<times> int list) list \<Rightarrow> int list
     \<Rightarrow> error + element list" where
  "add_slots encname model is_hseries mapping disk_raw_values [] = Inr []"
| "add_slots encname model is_hseries mapping disk_raw_values (slot # slots) =
     (case map_of mapping slot of
        None \<Rightarrow> Inl KeyError
      | Some (disk, slot_status, ident, flt) \<Rightarrow>
          (let info =
                 (if is_hseries
                  then enclosure_element encname model slot ''Array Device Slot''
                         (Status slot_status) [] disk (Some ident) (Some flt)
                  else (case parse_raw_value
                               (Bytes (case map_of disk_raw_values slot of
                                         None \<Rightarrow> [5, 0, 0, 0]
                                       | Some bs \<Rightarrow> bs)) of
                          Inl e \<Rightarrow> Inl e
                        | Inr raw \<Rightarrow>
                            enclosure_element encname model slot ''Array Device Slot''
                              (Packed raw) [] disk None None))
           in case info of
                Inl e \<Rightarrow> Inl e
              | Inr res \<Rightarrow>
                  (case add_slots encname model is_hseries mapping disk_raw_values slots of
                     Inl e \<Rightarrow> Inl e
                   | Inr els \<Rightarrow>
                       Inr (case res of None \<Rightarrow> els | Some el \<Rightarrow> el # els))))"

text \<open>
  The slot numbers after the shift: \<open>{k + 1: v for k, v in mapping.items()}\<close> when
  \<open>min(mapping) == 0\<close>, the mapping itself otherwise.
\<close>

definition shift_mapping :: "slot_mapping \<Rightarrow> slot_mapping" where
  "shift_mapping mapping =
     (if min_list (map fst mapping) = 0 then map (\<lambda>(k, v). (k + 1, v)) mapping
      else mapping)"

text \<open>
  \<open>dirs\<close> are the child directories in the order of \<open>iterdir()\<close>, \<open>ses\<close> the items of the
  SES status map (read on platforms other than the H series only). An empty mapping
  makes \<open>min\<close> raise \<open>ValueError\<close>, which the function catches to return at once.
\<close>

definition map_disks_to_enclosure_slots ::
  "string \<Rightarrow> string \<Rightarrow> bool \<Rightarrow> sysfs_dir list \<Rightarrow> (int \<times> ses_element) list
     \<Rightarrow> error + element list" where
  "map_disks_to_enclosure_slots encname model is_hseries dirs ses =
     (let mapping = collect_mapping is_hseries dirs []
      in if mapping = [] then Inr []
         else (let shifted = shift_mapping mapping;
                   disk_raw_values = (if \<not> is_hseries then collect_raw_values ses [] else [])
               in add_slots encname model is_hseries shifted disk_raw_values
                    (sort (map fst shifted))))"

text \<open>The two exclusion tests of the factory, as a predicate on the slot number.\<close>

definition dropped_slot :: "string \<Rightarrow> string \<Rightarrow> int \<Rightarrow> bool" where
  "dropped_slot encname model slot =
     ((prefix ''ECStream 3U16+4R-4X6G.3'' encname \<and> slot > 16)
      \<or> (prefix ''R50, '' model \<and> slot \<ge> 25))"

subsection \<open>Status walk: the loop of \<open>Enclosure._parse\<close>\<close>

text \<open>
  The three patterns are matched with \<open>re.match\<close>, that is at the start of the line.
  In the first two the run \<open>\s+\<close> is followed by the letter \<open>E\<close>, so it spans all the
  leading white space.

  \<open>\s+Element type: (.+), subenclosure\<close>: the group is greedy, so it ends at the last
  occurrence of \<open>, subenclosure\<close> that leaves it non-empty; \<open>.\<close> does not match a
  line feed.
\<close>

fun rfind_from :: "string \<Rightarrow> string \<Rightarrow> nat \<Rightarrow> nat option" where
  "rfind_from pat s 0 = None"
| "rfind_from pat s (Suc p) =
     (if prefix pat (drop (Suc p) s) then Some (Suc p) else rfind_from pat s p)"

definition match_element_type :: "string \<Rightarrow> string option" where
  "match_element_type line =
     (let n = length (takeWhile is_space line);
          rest = drop n line
      in if n = 0 \<or> \<not> prefix ''Element type: '' rest then None
         else (let body = drop (length ''Element type: '') rest;
                   span = length (takeWhile (\<lambda>c. c \<noteq> CHR 0x0A) body)
               in (case rfind_from '', subenclosure'' body span of
                     None \<Rightarrow> None
                   | Some p \<Rightarrow> Some (take p body))))"

text \<open>\<open>\s+Element ([0-9]+) descriptor:\<close>; the result is the group, a run of digits.\<close>

definition match_element_descriptor :: "string \<Rightarrow> string option" where
  "match_element_descriptor line =
     (let n = length (takeWhile is_space line);
          rest = drop n line
      in if n = 0 \<or> \<not> prefix ''Element '' rest then None
         else (let after = drop (length ''Element '') rest;
                   digits = takeWhile is_digit after
               in if digits \<noteq> [] \<and> prefix '' descriptor:'' (drop (length digits) after)
                  then Some digits else None))"

text \<open>
  \<open>\s+([0-9a-f ]{11})\<close>: the blank belongs to both classes, so the greedy run \<open>\s+\<close>
  gives characters back, one at a time, until eleven characters of the class follow
  it.
\<close>

fun match_hex_from :: "string \<Rightarrow> nat \<Rightarrow> string option" where
  "match_hex_from line 0 = None"
| "match_hex_from line (Suc k) =
     (let g = take 11 (drop (Suc k) line)
      in if length g = 11 \<and> list_all is_hex_or_blank g then Some g
         else match_hex_from line k)"

definition match_hex_bytes :: "string \<Rightarrow> string option" where
  "match_hex_bytes line = match_hex_from line (length (takeWhile is_space line))"

text \<open>The branch of the \<open>if\<close>/\<open>elif\<close> chain a line takes.\<close>

datatype line_shape = Type_header | Descriptor_line | Hex_line | Unrecognised

definition line_shape :: "string \<Rightarrow> line_shape" where
  "line_shape line =
     (if match_element_type line \<noteq> None then Type_header
      else if match_element_descriptor line \<noteq> None then Descriptor_line
      else if match_hex_bytes line \<noteq> None then Hex_line
      else Unrecognised)"

text \<open>\<open>" ".join([word[0].upper() + word[1:] for word in element_type.split()])\<close>.\<close>

definition capitalise :: "string \<Rightarrow> string" where
  "capitalise word = (case word of [] \<Rightarrow> [] | c # cs \<Rightarrow> upper_char c # cs)"

definition title_case :: "string \<Rightarrow> string" where
  "title_case element_type = join '' '' (map capitalise (split_ws element_type))"

text \<open>
  The carried state is the pair \<open>(element_type, element_number)\<close>. One iteration of the
  loop returns the new state and the element it appends, if any.
\<close>

type_synonym walk_state = "string option \<times> int option"

definition parse_line ::
  "string \<Rightarrow> string \<Rightarrow> walk_state \<Rightarrow> string \<Rightarrow> error + (walk_state \<times> element option)" where
  "parse_line encname model st line =
     (case st of (element_type, element_number) \<Rightarrow>
     (case match_element_type line of
        Some g \<Rightarrow>
          (let t = (if g \<noteq> ''Audible alarm'' then title_case g else g);
               t' = (if t = ''Temperature Sensor'' then ''Temperature Sensors'' else t)
           in Inr ((Some t', None), None))
      | None \<Rightarrow>
     (case match_element_descriptor line of
        Some digits \<Rightarrow> Inr ((element_type, Some (int_of_digits digits)), None)
      | None \<Rightarrow>
     (case match_hex_bytes line of
        Some g \<Rightarrow>
          (case element_type of
             None \<Rightarrow> Inr ((element_type, None), None)
           | Some t \<Rightarrow>
          (case element_number of
             None \<Rightarrow> Inr ((element_type, None), None)
           | Some n \<Rightarrow>
               (if t \<noteq> [] \<and> n \<noteq> 0 \<and> t \<noteq> ''Array Device Slot''
                then (case parse_raw_value (Text g) of
                        Inl e \<Rightarrow> Inl e
                      | Inr raw \<Rightarrow>
                          (case enclosure_element encname model (n + 1) t (Packed raw)
                                  [] [] None None of
                             Inl e \<Rightarrow> Inl e
                           | Inr el \<Rightarrow> Inr ((element_type, None), el)))
                else Inr ((element_type, None), None))))
      | None \<Rightarrow> Inr ((element_type, None), None)))))"

text \<open>The whole loop over the lines of the status block: the elements appended.\<close>

fun parse_status ::
  "string \<Rightarrow> string \<Rightarrow> walk_state \<Rightarrow> string list \<Rightarrow> error + element list" where
  "parse_status encname model st [] = Inr []"
| "parse_status encname model st (line # lines) =
     (case parse_line encname model st line of
        Inl e \<Rightarrow> Inl e
      | Inr (st', res) \<Rightarrow>
          (case parse_status encname model st' lines of
             Inl e \<Rightarrow> Inl e
           | Inr els \<Rightarrow> Inr (case res of None \<Rightarrow> els | Some el \<Rightarrow> el # els)))"

subsection \<open>Collection and ordering: \<open>EnclosureService.query\<close>\<close>

text \<open>
  The fields of an \<open>Enclosure\<close> object that the query reads: \<open>encid\<close>, \<open>devname\<close>,
  \<open>name\<close>, \<open>model\<close>, \<open>controller\<close> and the elements in the order they were appended.
\<close>

record Enclosure =
  e_encid :: string
  e_devname :: string
  e_name :: string
  e_model :: string
  e_controller :: bool
  e_elements :: "element list"

text \<open>
  The dictionaries of the query. Of an element's dictionary the model keeps \<open>slot\<close>,
  \<open>name\<close>, \<open>descriptor\<close>, \<open>fault\<close>, \<open>identify\<close> and the key \<open>original\<close>, which only
  \<open>enclosure.map_enclosures\<close> adds; \<open>data\<close>, \<open>status\<close>, \<open>value\<close> and \<open>value_raw\<close> are left
  out, as are \<open>descriptor\<close> and \<open>header\<close> of a group. \<open>number\<close> and \<open>label\<close> are absent
  until the query sets them.
\<close>

record original =
  o_enclosure_id :: string
  o_enclosure_bsg :: string
  o_slot :: int

record element_dict =
  ed_slot :: int
  ed_name :: string
  ed_descriptor :: string
  ed_fault :: "bool option"
  ed_identify :: "bool option"
  ed_original :: "original option"

record group_dict =
  g_name :: "string option"
  g_elements :: "element_dict list"
  g_has_slot_status :: bool

record enclosure_dict =
  q_id :: string
  q_bsg :: string
  q_name :: string
  q_model :: string
  q_controller :: bool
  q_elements :: "group_dict list"
  q_number :: "int option"
  q_label :: "string option"

text \<open>\<open>hasattr(elem, "device_slot_set")\<close>: only \<open>ArrayDevSlot\<close> defines the method.\<close>

definition has_device_slot_set :: "element \<Rightarrow> bool" where
  "has_device_slot_set el = (el_kind el = ArrayDevSlot)"

definition element_to_dict :: "element \<Rightarrow> element_dict" where
  "element_to_dict el =
     \<lparr> ed_slot = el_slot el, ed_name = el_name el, ed_descriptor = el_descriptor el,
       ed_fault = (if has_device_slot_set el then Some (fault el) else None),
       ed_identify = (if has_device_slot_set el then Some (identify el) else None),
       ed_original = None \<rparr>"

text \<open>\<open>Enclosure.iter_by_name\<close>: the elements grouped by name, the names sorted.\<close>

definition iter_by_name :: "element list \<Rightarrow> (string \<times> element list) list" where
  "iter_by_name es =
     map (\<lambda>n. (n, filter (\<lambda>el. el_name el = n) es)) (sort (remdups (map el_name es)))"

definition group_to_dict :: "string \<times> element list \<Rightarrow> group_dict" where
  "group_to_dict g =
     \<lparr> g_name = Some (fst g), g_elements = map element_to_dict (snd g),
       g_has_slot_status = list_ex has_device_slot_set (snd g) \<rparr>"

definition enclosure_to_dict :: "Enclosure \<Rightarrow> enclosure_dict" where
  "enclosure_to_dict enc =
     \<lparr> q_id = e_encid enc, q_bsg = e_devname enc, q_name = e_name enc,
       q_model = e_model enc, q_controller = e_controller enc,
       q_elements = map group_to_dict (iter_by_name (e_elements enc)),
       q_number = None, q_label = None \<rparr>"

definition first_expander :: string where
  "first_expander = ''eDrawer4048S1''"

text \<open>The first loop: \<open>enclosures.insert(0, enclosure)\<close> or \<open>enclosures.append(enclosure)\<close>.\<close>

fun collect :: "Enclosure list \<Rightarrow> enclosure_dict list \<Rightarrow> enclosure_dict list" where
  "collect [] enclosures = enclosures"
| "collect (enc # encs) enclosures =
     (let enclosure = enclosure_to_dict enc
      in if sublist first_expander (q_name enclosure)
         then collect encs (enclosure # enclosures)
         else collect encs (enclosures @ [enclosure]))"

text \<open>\<open>for number, enclosure in enumerate(enclosures): enclosure["number"] = number\<close>.\<close>

definition assign_numbers :: "enclosure_dict list \<Rightarrow> enclosure_dict list" where
  "assign_numbers enclosures =
     map (\<lambda>(number, enclosure). enclosure\<lparr> q_number := Some (int number) \<rparr>)
       (enumerate 0 enclosures)"

text \<open>
  \<open>labels.get(enclosure["id"]) or enclosure["name"]\<close>, where \<open>labels\<close> is built from the
  rows of the label table, a later row replacing an earlier one of the same id.
\<close>

definition assign_label :: "(string \<times> string) list \<Rightarrow> enclosure_dict \<Rightarrow> enclosure_dict" where
  "assign_label rows enclosure =
     enclosure\<lparr> q_label :=
       Some (case map_of (rev rows) (q_id enclosure) of
               None \<Rightarrow> q_name enclosure
             | Some l \<Rightarrow> if l = [] then q_name enclosure else l) \<rparr>"

text \<open>The key of the final sort: \<open>(0 if enclosure["controller"] else 1, enclosure["id"])\<close>.\<close>

definition sort_rank :: "enclosure_dict \<Rightarrow> nat \<times> string" where
  "sort_rank enclosure = (if q_controller enclosure then 0 else 1, q_id enclosure)"

text \<open>
  The list as it stands before the sort: collected, extended by the NVMe enclosures,
  passed through \<open>enclosure.map_enclosures\<close>, numbered and labelled. The dictionaries
  of the list are taken to be distinct objects.
\<close>

definition numbered_enclosures ::
  "Enclosure list \<Rightarrow> enclosure_dict list \<Rightarrow> (enclosure_dict list \<Rightarrow> enclosure_dict list)
     \<Rightarrow> (string \<times> string) list \<Rightarrow> enclosure_dict list" where
  "numbered_enclosures encs map_nvme map_enclosures rows =
     map (assign_label rows) (assign_numbers (map_enclosures (collect encs [] @ map_nvme)))"

text \<open>
  The list \<open>query\<close> hands to \<open>filter_list\<close>; Python's \<open>sorted\<close> is stable, as \<open>sort_key\<close>
  is.
\<close>

definition query_sorted ::
  "bool \<Rightarrow> Enclosure list \<Rightarrow> enclosure_dict list
     \<Rightarrow> (enclosure_dict list \<Rightarrow> enclosure_dict list)
     \<Rightarrow> (string \<times> string) list \<Rightarrow> enclosure_dict list" where
  "query_sorted is_ix_hardware encs map_nvme map_enclosures rows =
     (if \<not> is_ix_hardware then []
      else sort_key sort_rank (numbered_enclosures encs map_nvme map_enclosures rows))"

definition query ::
  "(enclosure_dict list \<Rightarrow> enclosure_dict list) \<Rightarrow> bool \<Rightarrow> Enclosure list
     \<Rightarrow> enclosure_dict list \<Rightarrow> (enclosure_dict list \<Rightarrow> enclosure_dict list)
     \<Rightarrow> (string \<times> string) list \<Rightarrow> enclosure_dict list" where
  "query filter_list is_ix_hardware encs map_nvme map_enclosures rows =
     (if \<not> is_ix_hardware then []
      else filter_list (query_sorted is_ix_hardware encs map_nvme map_enclosures rows))"

subsection \<open>Slot control: \<open>EnclosureService.set_slot_status\<close>\<close>

text \<open>
  The calls the dispatcher makes to its backends, in order: the two NVMe routines, the
  sysfs toggle \<open>toggle_enclosure_slot_identifier(sysfs_path, mapped_slot, status, True)\<close>
  and \<open>EnclosureDevice(path).set_control(slot, action)\<close>.
\<close>

datatype effect =
    R30_set_slot_status int string
  | Fseries_set_slot_status int string
  | Toggle_enclosure_slot_identifier string string string bool
  | Set_control string string string

text \<open>
  What the backends answer: \<open>toggle_missing path slot\<close> when the sysfs toggle raises
  \<open>FileNotFoundError\<close>, \<open>set_control_fails path slot action\<close> when the control page
  raises \<open>OSError\<close>.
\<close>

record backend =
  toggle_missing :: "string \<Rightarrow> string \<Rightarrow> bool"
  set_control_fails :: "string \<Rightarrow> string \<Rightarrow> string \<Rightarrow> bool"

definition sysfs_to_ui :: "(int \<times> string) list" where
  "sysfs_to_ui =
     [(1, ''8''), (2, ''9''), (3, ''10''), (4, ''11''),
      (5, ''12''), (6, ''13''), (7, ''14''), (8, ''15''),
      (9, ''0''), (10, ''1''), (11, ''2''), (12, ''3'')]"

text \<open>
  \<open>_get_orig_enclosure_and_disk\<close>: the first element with the requested slot among the
  groups named \<open>Array Device Slot\<close>. \<open>j['original']\<close> raises \<open>KeyError\<close> when the key is
  absent; the result \<open>None\<close> is the function falling off its end.
\<close>

definition get_orig_enclosure_and_disk ::
  "string \<Rightarrow> int \<Rightarrow> enclosure_dict \<Rightarrow> error + (string \<times> int) option" where
  "get_orig_enclosure_and_disk enclosure_id slot info =
     (case filter (\<lambda>j. ed_slot j = slot)
             (concat (map g_elements
                (filter (\<lambda>i. g_name i = Some ''Array Device Slot'') (q_elements info)))) of
        [] \<Rightarrow> Inr None
      | j # js \<Rightarrow>
          (if enclosure_id = ''mapped_enclosure_0''
           then (case ed_original j of
                   None \<Rightarrow> Inl KeyError
                 | Some orig \<Rightarrow> Inr (Some (o_enclosure_bsg orig, o_slot orig)))
           else Inr (Some (q_bsg info, slot))))"

text \<open>
  \<open>('clear=ident', 'clear=fault')\<close> for \<open>CLEAR\<close>, \<open>(f'set={status[:5].lower()}',)\<close>
  otherwise.
\<close>

definition control_actions :: "string \<Rightarrow> string list" where
  "control_actions status =
     (if status = ''CLEAR'' then [''clear=ident'', ''clear=fault'']
      else [''set='' @ map lower_char (take 5 status)])"

text \<open>
  The loop over the actions: the calls made, and whether all of them returned. The
  call that raises \<open>OSError\<close> is the last one made.
\<close>

fun run_actions :: "backend \<Rightarrow> string \<Rightarrow> string \<Rightarrow> string list \<Rightarrow> effect list \<times> bool" where
  "run_actions be path slot [] = ([], True)"
| "run_actions be path slot (action # actions) =
     (if set_control_fails be path slot action then ([Set_control path slot action], False)
      else (case run_actions be path slot actions of
              (calls, ok) \<Rightarrow> (Set_control path slot action # calls, ok)))"

text \<open>The enclosure ids that the first two branches of \<open>set_slot_status\<close> test.\<close>

definition nvme_ids :: "string list" where
  "nvme_ids = [''r30_nvme_enclosure'', ''f60_nvme_enclosure'', ''f100_nvme_enclosure'',
               ''f130_nvme_enclosure'']"

text \<open>
  \<open>found\<close> is the answer to \<open>enclosure.query\<close> with the filter on the enclosure id. The
  result pairs the backend calls made with the outcome of \<open>set_slot_status\<close>.
\<close>

definition set_slot_status ::
  "backend \<Rightarrow> enclosure_dict list \<Rightarrow> string \<Rightarrow> int \<Rightarrow> string
     \<Rightarrow> effect list \<times> (error + unit)" where
  "set_slot_status be found enclosure_id slot status =
     (if enclosure_id = ''r30_nvme_enclosure''
        then ([R30_set_slot_status slot status], Inr ())
      else if enclosure_id \<in> set [''f60_nvme_enclosure'', ''f100_nvme_enclosure'',
                                   ''f130_nvme_enclosure'']
        then ([Fseries_set_slot_status slot status], Inr ())
      else (case found of
              [] \<Rightarrow> ([], Inl (CallError (Enclosure_not_found enclosure_id) ENOENT))
            | info # rest \<Rightarrow>
                (if q_model info = ''H Series''
                 then (case map_of sysfs_to_ui slot of
                         None \<Rightarrow> ([], Inl (CallError (Slot_not_found slot) ENOENT))
                       | Some mapped_slot \<Rightarrow>
                           (let addr = removeprefix (q_bsg info) ''bsg/'';
                                sysfs_path = ''/sys/class/enclosure/'' @ addr;
                                call = Toggle_enclosure_slot_identifier sysfs_path
                                         mapped_slot status True
                            in if toggle_missing be sysfs_path mapped_slot
                               then ([call], Inl (CallError (Slot_not_found slot) ENOENT))
                               else ([call], Inr ())))
                 else (case get_orig_enclosure_and_disk enclosure_id slot info of
                         Inl e \<Rightarrow> ([], Inl e)
                       | Inr None \<Rightarrow> ([], Inl (CallError (Slot_not_found slot) ENOENT))
                       | Inr (Some (original_bsg, original_slot)) \<Rightarrow>
                           (case run_actions be (''/dev/'' @ original_bsg)
                                   (str_int (original_slot - 1)) (control_actions status) of
                              (calls, ok) \<Rightarrow>
                                (calls,
                                 if ok then Inr ()
                                 else Inl (CallError
                                             (Failed_to_set status slot (q_id info))
                                             Errno_default)))))))"

subsection \<open>Example inputs\<close>

text \<open>
  The two expanders of an R50, in the order the first is discovered first, with the
  model and the controller flag the classifier gives them.
\<close>

definition r50_expanders :: "Enclosure list" where
  "r50_expanders =
     [\<lparr> e_encid = ''5b0bd6d1a30714ff'', e_devname = ''bsg/0:0:0:0'',
        e_name = ''iX eDrawer4048S1 0301'',
        e_model = fst (set_model ''iX eDrawer4048S1 0301'' ''TRUENAS-R50'' []),
        e_controller = snd (set_model ''iX eDrawer4048S1 0301'' ''TRUENAS-R50'' []),
        e_elements = [] \<rparr>,
      \<lparr> e_encid = ''5b0bd6d1a30714bf'', e_devname = ''bsg/0:0:1:0'',
        e_name = ''iX eDrawer4048S2 0301'',
        e_model = fst (set_model ''iX eDrawer4048S2 0301'' ''TRUENAS-R50'' []),
        e_controller = snd (set_model ''iX eDrawer4048S2 0301'' ''TRUENAS-R50'' []),
        e_elements = [] \<rparr>]"


text \<open>
  Answers of \<open>enclosure.query\<close>: an enclosure whose slots \<open>enclosure.map_enclosures\<close> has
  remapped, a plain expansion shelf and an H series head unit; and two backends.
\<close>

definition mapped_info :: enclosure_dict where
  "mapped_info =
     \<lparr> q_id = ''mapped_enclosure_0'', q_bsg = ''bsg/0:0:0:0'', q_name = ''Drive Bays'',
       q_model = ''R50'', q_controller = True,
       q_elements =
         [\<lparr> g_name = Some ''Array Device Slot'',
            g_elements =
              [\<lparr> ed_slot = 5, ed_name = ''Array Device Slot'', ed_descriptor = ''Disk #5'',
                 ed_fault = Some False, ed_identify = Some False,
                 ed_original = Some \<lparr> o_enclosure_id = ''5b0bd6d1a30714bf'',
                                        o_enclosure_bsg = ''bsg/0:0:1:0'', o_slot = 9 \<rparr> \<rparr>],
            g_has_slot_status = True \<rparr>],
       q_number = Some 0, q_label = Some ''Drive Bays'' \<rparr>"

definition plain_info :: enclosure_dict where
  "plain_info =
     \<lparr> q_id = ''5000ccab05116800'', q_bsg = ''bsg/1:0:0:0'', q_name = ''HGST H4102-J 3010'',
       q_model = ''ES102'', q_controller = False,
       q_elements =
         [\<lparr> g_name = Some ''Array Device Slot'',
            g_elements =
              [\<lparr> ed_slot = 5, ed_name = ''Array Device Slot'', ed_descriptor = ''slot05'',
                 ed_fault = Some False, ed_identify = Some False,
                 ed_original = None \<rparr>],
            g_has_slot_status = True \<rparr>],
       q_number = Some 1, q_label = Some ''HGST H4102-J 3010'' \<rparr>"

definition hseries_info :: enclosure_dict where
  "hseries_info =
     \<lparr> q_id = ''3b0ad6d1c00007c0'', q_bsg = ''bsg/0:0:0:0'', q_name = ''BROADCOM VirtualSES 03'',
       q_model = ''H Series'', q_controller = True, q_elements = [],
       q_number = Some 0, q_label = Some ''BROADCOM VirtualSES 03'' \<rparr>"

definition accepting :: backend where
  "accepting = \<lparr> toggle_missing = (\<lambda>path slot. False),
                  set_control_fails = (\<lambda>path slot action. False) \<rparr>"

definition missing_path :: backend where
  "missing_path = \<lparr> toggle_missing = (\<lambda>path slot. True),
                     set_control_fails = (\<lambda>path slot action. False) \<rparr>"


section \<open>Properties\<close>

subsection \<open>Raw value packing\<close>

lemma byte_mask: "(255::int) = mask 8"
  by (simp add: mask_eq_exp_minus_1)

lemma byte_take_bit: "0 \<le> (a::int) \<Longrightarrow> a \<le> 255 \<Longrightarrow> take_bit 8 a = a"
  by (simp add: take_bit_int_eq_self)

lemma byte_bit: "0 \<le> (a::int) \<Longrightarrow> a \<le> 255 \<Longrightarrow> bit a n \<Longrightarrow> n < 8"
  using bit_take_bit_iff [of 8 a n] by (simp add: byte_take_bit)

lemma pack4_value:
  "parse_raw_value (Bytes [a, b, c, d]) = Inr (push_bit 24 a OR push_bit 16 b OR push_bit 8 c OR d)"
  by (simp add: Let_def or.assoc)

lemma pack4_byte0:
  assumes "0 \<le> a" "a \<le> 255" "0 \<le> b" "b \<le> 255" "0 \<le> c" "c \<le> 255" "0 \<le> d" "d \<le> (255::int)"
  shows "drop_bit 24 (push_bit 24 a OR push_bit 16 b OR push_bit 8 c OR d) AND 255 = a"
proof -
  note bb = byte_bit[OF assms(1,2)] byte_bit[OF assms(3,4)] byte_bit[OF assms(5,6)] byte_bit[OF assms(7,8)]
  show ?thesis
    unfolding byte_mask take_bit_eq_mask[symmetric]
    by (rule bit_eqI) (auto simp add: bit_simps dest: bb)
qed

lemma pack4_range:
  assumes "0 \<le> a" "a \<le> 255" "0 \<le> b" "b \<le> 255" "0 \<le> c" "c \<le> 255" "0 \<le> d" "d \<le> (255::int)"
  shows "0 \<le> push_bit 24 a OR push_bit 16 b OR push_bit 8 c OR d"
    and "push_bit 24 a OR push_bit 16 b OR push_bit 8 c OR d < 2 ^ 32"
proof -
  let ?r = "push_bit 24 a OR push_bit 16 b OR push_bit 8 c OR d"
  note bb = byte_bit[OF assms(1,2)] byte_bit[OF assms(3,4)] byte_bit[OF assms(5,6)] byte_bit[OF assms(7,8)]
  show nonneg: "0 \<le> ?r" using assms by simp
  have "take_bit 32 ?r = ?r"
    by (rule bit_eqI) (auto simp add: bit_simps dest: bb)
  then show "?r < 2 ^ 32"
    by (metis take_bit_int_less_exp)
qed


lemma pack4_byte1:
  assumes "0 \<le> a" "a \<le> 255" "0 \<le> b" "b \<le> 255" "0 \<le> c" "c \<le> 255" "0 \<le> d" "d \<le> (255::int)"
  shows "drop_bit 16 (push_bit 24 a OR push_bit 16 b OR push_bit 8 c OR d) AND 255 = b"
proof -
  note bb = byte_bit[OF assms(1,2)] byte_bit[OF assms(3,4)] byte_bit[OF assms(5,6)] byte_bit[OF assms(7,8)]
  show ?thesis
    unfolding byte_mask take_bit_eq_mask[symmetric]
    by (rule bit_eqI) (auto simp add: bit_simps dest: bb)
qed

lemma pack4_byte2:
  assumes "0 \<le> a" "a \<le> 255" "0 \<le> b" "b \<le> 255" "0 \<le> c" "c \<le> 255" "0 \<le> d" "d \<le> (255::int)"
  shows "drop_bit 8 (push_bit 24 a OR push_bit 16 b OR push_bit 8 c OR d) AND 255 = c"
proof -
  note bb = byte_bit[OF assms(1,2)] byte_bit[OF assms(3,4)] byte_bit[OF assms(5,6)] byte_bit[OF assms(7,8)]
  show ?thesis
    unfolding byte_mask take_bit_eq_mask[symmetric]
    by (rule bit_eqI) (auto simp add: bit_simps dest: bb)
qed

lemma pack4_byte3:
  assumes "0 \<le> a" "a \<le> 255" "0 \<le> b" "b \<le> 255" "0 \<le> c" "c \<le> 255" "0 \<le> d" "d \<le> (255::int)"
  shows "(push_bit 24 a OR push_bit 16 b OR push_bit 8 c OR d) AND 255 = d"
proof -
  note bb = byte_bit[OF assms(1,2)] byte_bit[OF assms(3,4)] byte_bit[OF assms(5,6)] byte_bit[OF assms(7,8)]
  show ?thesis
    unfolding byte_mask take_bit_eq_mask[symmetric]
    by (rule bit_eqI) (auto simp add: bit_simps dest: bb)
qed

lemma extract_range: "0 \<le> extract_byte i raw \<and> extract_byte i raw \<le> 255"
  unfolding extract_byte_def
  by simp

lemma pack_short:
  "parse_raw_value (Bytes []) = parse_raw_value (Bytes [0, 0, 0, 0])"
  "parse_raw_value (Bytes [a]) = parse_raw_value (Bytes [a, 0, 0, 0])"
  "parse_raw_value (Bytes [a, b]) = parse_raw_value (Bytes [a, b, 0, 0])"
  "parse_raw_value (Bytes [a, b, c]) = parse_raw_value (Bytes [a, b, c, 0])"
  by (simp_all add: Let_def)

lemma pack_bytes_overflow:
  "4 < i + length vs \<Longrightarrow> vs \<noteq> [] \<Longrightarrow> \<exists>e. pack_bytes i acc vs = Inl e"
proof (induction vs arbitrary: i acc)
  case Nil
  then show ?case by simp
next
  case (Cons v vs)
  show ?case
  proof (cases "3 < i")
    case True
    then show ?thesis by (simp add: Let_def)
  next
    case False
    with Cons.prems have "vs \<noteq> []" by auto
    moreover from Cons.prems have "4 < Suc i + length vs" by simp
    ultimately obtain e where "pack_bytes (Suc i) (acc OR push_bit (nat ((2 * (3 - int i)) * 4)) v) vs = Inl e"
      using Cons.IH by blast
    with False show ?thesis by (simp add: Let_def)
  qed
qed


lemma short_list_cases:
  assumes "length (bs :: int list) \<le> 4"
  obtains "bs = []" | a where "bs = [a]" | a b where "bs = [a, b]"
    | a b c where "bs = [a, b, c]" | a b c d where "bs = [a, b, c, d]"
proof (cases bs)
  case Nil
  then show ?thesis using that(1) by simp
next
  case c1: (Cons a r1)
  show ?thesis
  proof (cases r1)
    case Nil
    with c1 show ?thesis using that(2) by simp
  next
    case c2: (Cons b r2)
    show ?thesis
    proof (cases r2)
      case Nil
      with c1 c2 show ?thesis using that(3) by simp
    next
      case c3: (Cons c r3)
      show ?thesis
      proof (cases r3)
        case Nil
        with c1 c2 c3 show ?thesis using that(4) by simp
      next
        case c4: (Cons d r4)
        with c1 c2 c3 assms have "r4 = []" by simp
        with c1 c2 c3 c4 show ?thesis using that(5) by simp
      qed
    qed
  qed
qed

lemma pack4_all:
  assumes "0 \<le> a" "a \<le> 255" "0 \<le> b" "b \<le> 255" "0 \<le> c" "c \<le> 255" "0 \<le> d" "d \<le> (255::int)"
  shows "\<exists>raw. parse_raw_value (Bytes [a, b, c, d]) = Inr raw \<and> 0 \<le> raw \<and> raw < 2 ^ 32
           \<and> extract_byte 0 raw = a \<and> extract_byte 1 raw = b
           \<and> extract_byte 2 raw = c \<and> extract_byte 3 raw = d"
  unfolding pack4_value extract_byte_def
  using pack4_byte0[OF assms] pack4_byte1[OF assms] pack4_byte2[OF assms] pack4_byte3[OF assms]
    pack4_range[OF assms]
  by simp

lemma in_range_of_extract: "extract_byte i raw = b \<Longrightarrow> 0 \<le> b \<and> b \<le> 255"
  using extract_range [of i raw] by simp

lemma packed_formula_value:
  "length bs \<le> 4 \<Longrightarrow> parse_raw_value (Bytes bs) = Inr (packed_formula bs)"
  by (cases bs rule: short_list_cases) (simp_all add: packed_formula_def Let_def)

lemma roundtrip_core:
  assumes len: "length bs \<le> 4"
    and rng: "(\<forall>b\<in>set bs. 0 \<le> b \<and> b \<le> 255) \<Longrightarrow>
                0 \<le> packed_formula bs \<and> packed_formula bs < 2 ^ 32
                \<and> (\<forall>i<length bs. extract_byte i (packed_formula bs) = bs ! i)"
  shows "\<exists>raw. parse_raw_value (Bytes bs) = Inr raw
           \<and> raw = packed_formula bs
           \<and> ((\<forall>b\<in>set bs. 0 \<le> b \<and> b \<le> 255) \<longrightarrow> 0 \<le> raw \<and> raw < 2 ^ 32)
           \<and> ((\<forall>i<length bs. extract_byte i raw = bs ! i) \<longleftrightarrow> (\<forall>b\<in>set bs. 0 \<le> b \<and> b \<le> 255))"
proof -
  have conv: "\<forall>b\<in>set bs. 0 \<le> b \<and> b \<le> 255"
    if "\<forall>i<length bs. extract_byte i (packed_formula bs) = bs ! i"
  proof
    fix b assume "b \<in> set bs"
    then obtain i where "i < length bs" "bs ! i = b"
      by (auto simp add: in_set_conv_nth)
    with that have "extract_byte i (packed_formula bs) = b" by simp
    then show "0 \<le> b \<and> b \<le> 255" by (rule in_range_of_extract)
  qed
  show ?thesis
    using packed_formula_value [OF len] rng conv by blast
qed

lemma roundtrip_range:
  assumes len: "length bs \<le> 4" and bytes: "\<forall>b\<in>set bs. 0 \<le> b \<and> b \<le> 255"
  shows "0 \<le> packed_formula bs \<and> packed_formula bs < 2 ^ 32
           \<and> (\<forall>i<length bs. extract_byte i (packed_formula bs) = bs ! i)"
proof -
  obtain a b c d where pad: "parse_raw_value (Bytes bs) = parse_raw_value (Bytes [a, b, c, d])"
    and rng: "0 \<le> a" "a \<le> 255" "0 \<le> b" "b \<le> 255" "0 \<le> c" "c \<le> 255" "0 \<le> d" "d \<le> 255"
    and nth: "\<forall>i<length bs. bs ! i = [a, b, c, d] ! i"
    using len
  proof (cases bs rule: short_list_cases)
    case 1
    show ?thesis by (rule that [of 0 0 0 0]) (simp_all add: 1 Let_def)
  next
    case (2 a)
    show ?thesis using bytes by (intro that [of a 0 0 0]) (simp_all add: 2 Let_def)
  next
    case (3 a b)
    show ?thesis using bytes
      by (intro that [of a b 0 0]) (simp_all add: 3 Let_def less_Suc_eq)
  next
    case (4 a b c)
    show ?thesis using bytes
      by (intro that [of a b c 0]) (simp_all add: 4 Let_def less_Suc_eq)
  next
    case (5 a b c d)
    show ?thesis using bytes
      by (intro that [of a b c d]) (simp_all add: 5 Let_def less_Suc_eq)
  qed
  from pack4_all [OF rng] obtain raw where raw: "parse_raw_value (Bytes [a, b, c, d]) = Inr raw"
    and r: "0 \<le> raw" "raw < 2 ^ 32"
    and ex: "extract_byte 0 raw = a" "extract_byte 1 raw = b"
      "extract_byte 2 raw = c" "extract_byte 3 raw = d"
    by blast
  have eq: "packed_formula bs = raw"
    using packed_formula_value [OF len] pad raw by simp
  have "extract_byte i raw = bs ! i" if "i < length bs" for i
  proof -
    from that len have "i < 4" by simp
    then have "i = 0 \<or> i = 1 \<or> i = 2 \<or> i = 3" by arith
    then have "extract_byte i raw = [a, b, c, d] ! i"
      using ex by (auto simp add: numeral_eq_Suc)
    with nth that show ?thesis by simp
  qed
  with r show ?thesis unfolding eq by blast
qed

text \<open>
  Claim C4. For a list of at most four values, \<open>_parse_raw_value\<close> returns the
  bitwise or of the values \<open>byte[i] << (2 * (3 - i)) * 4\<close>; when every value is a byte
  (0 to 255) the result is a 32-bit word; and reading position \<open>i\<close> back with
  \<open>(raw_value >> (2 * (3 - i)) * 4) & 0xff\<close> gives every value of the list again exactly
  when every value is a byte. The result is a function of the list alone.
\<close>

theorem parse_raw_value_roundtrip:
  assumes "length bs \<le> 4"
  shows "\<exists>raw. parse_raw_value (Bytes bs) = Inr raw
           \<and> raw = packed_formula bs
           \<and> ((\<forall>b\<in>set bs. 0 \<le> b \<and> b \<le> 255) \<longrightarrow> 0 \<le> raw \<and> raw < 2 ^ 32)
           \<and> ((\<forall>i<length bs. extract_byte i raw = bs ! i) \<longleftrightarrow> (\<forall>b\<in>set bs. 0 \<le> b \<and> b \<le> 255))"
  using assms roundtrip_range [OF assms] by (rule roundtrip_core)

theorem parse_raw_value_roundtrip_witness:
  "parse_raw_value (Bytes [1, 0, 2, 32]) = Inr 16777760
   \<and> extract_byte 0 16777760 = 1 \<and> extract_byte 1 16777760 = 0
   \<and> extract_byte 2 16777760 = 2 \<and> extract_byte 3 16777760 = 32"
  using parse_raw_value_roundtrip [of "[1, 0, 2, 32]"]
  by (simp add: packed_formula_def less_Suc_eq numeral_eq_Suc)

subsection \<open>Model classifier\<close>

text \<open>
  Claim C8. An input to the model classifier that meets none of the conditions of its
  rule chain leaves the model empty and \<open>is_controller\<close> false, whatever the product
  name and the configuration text are.
\<close>

theorem set_model_unmatched:
  "\<not> matches_rule encname \<Longrightarrow> set_model encname product_name data = ([], False)"
  by (simp add: matches_rule_def set_model_def)

theorem set_model_unmatched_witness:
  "\<not> matches_rule ''LSI SAS3x40'' \<and> set_model ''LSI SAS3x40'' ''TRUENAS-M40'' ''LSI SAS3x40 0601'' = ([], False)"
proof -
  have h: "\<not> matches_rule ''LSI SAS3x40''"
    by (simp add: matches_rule_def starts_with_any_def M_SERIES_REGEX_def R_SERIES_REGEX_def
        R20_REGEX_def R50_REGEX_def X_SERIES_REGEX_def ES24_REGEX_def ES24F_REGEX_def)
  show ?thesis
    using h set_model_unmatched [OF h, of "''TRUENAS-M40''" "''LSI SAS3x40 0601''"] by simp
qed

text \<open>
  Conversely a matched name never gives that result; the rule on the name
  \<open>AHCI SGPIO Enclosure 2.00\<close> sets the controller flag even when it leaves the model
  empty.
\<close>

lemma set_model_matched:
  "matches_rule encname \<Longrightarrow> set_model encname product_name data \<noteq> ([], False)"
  by (auto simp add: matches_rule_def set_model_def)

lemma set_model_sgpio_unknown_product:
  "set_model ''AHCI SGPIO Enclosure 2.00'' ''TRUENAS-M40'' data = ([], True)"
  by (simp add: set_model_def starts_with_any_def M_SERIES_REGEX_def R_SERIES_REGEX_def
        R20_REGEX_def R50_REGEX_def MINI_REGEX_def R20_VARIANT_def)


subsection \<open>Elements and their flags\<close>

lemma bit9_test: "(drop_bit 8 (n::int) AND 2 \<noteq> 0) \<longleftrightarrow> bit n 9"
proof -
  have "(2::int) = push_bit 1 1" by simp
  then have "drop_bit 8 n AND 2 = push_bit 1 (of_bool (bit n 9))"
    by (intro bit_eqI) (auto simp add: bit_simps simp del: push_bit_of_1)
  then show ?thesis by simp
qed

lemma bit5_test: "((n::int) AND 32 \<noteq> 0) \<longleftrightarrow> bit n 5"
  using and_exp_eq_0_iff_not_bit [of n 5] by simp

lemma Element_init_slot:
  "Element_init k given slot v desc flags = Inr el \<Longrightarrow> el_slot el = slot \<and> el_kind el = k
     \<and> el_value_raw el = v"
  by (auto simp add: Element_init_def Let_def split: value_raw.splits option.splits prod.splits)

lemma ArrayDevSlot_init_total:
  "\<exists>el. ArrayDevSlot_init slot v desc dev ident flt = Inr el \<and> el_slot el = slot
     \<and> el_kind el = ArrayDevSlot \<and> el_value_raw el = v
     \<and> el_identify el = (case v of Packed n \<Rightarrow> None | Status s \<Rightarrow> Some ident)
     \<and> el_fault el = (case v of Packed n \<Rightarrow> None | Status s \<Rightarrow> Some flt)"
  by (cases v)
    (auto simp add: ArrayDevSlot_init_def Element_init_def Let_def split: list.splits)

lemma enclosure_element_slot:
  "enclosure_element encname model slot name v desc dev ident flt = Inr (Some el)
     \<Longrightarrow> el_slot el = slot"
  using ArrayDevSlot_init_total [of slot v desc dev ident flt]
  by (auto simp add: enclosure_element_def Let_def dest: Element_init_slot
      split: if_splits sum.splits)

lemma enclosure_element_array_slot:
  "enclosure_element encname model slot ''Array Device Slot'' v desc dev ident flt =
     (if dropped_slot encname model slot then Inr None
      else map_sum id Some (ArrayDevSlot_init slot v desc dev ident flt))"
  using ArrayDevSlot_init_total [of slot v desc dev ident flt]
  by (auto simp add: enclosure_element_def dropped_slot_def Let_def)

text \<open>
  Claim C9, as amended. For an \<open>ArrayDevSlot\<close> built with a status string, so that its
  flags come from the operating system, \<open>identify\<close> is true exactly when the identify
  string is not the one-character string \<open>0\<close>, and \<open>fault\<close> is true exactly when the
  fault string is not \<open>0\<close>. For one built with a packed integer, \<open>identify\<close> is the
  test of bit \<open>0x2\<close> of \<open>raw_value >> 8\<close> (bit 9 of the value) and \<open>fault\<close> the test of bit
  \<open>0x20\<close> of \<open>raw_value\<close> (bit 5).
\<close>

theorem ArrayDevSlot_flags:
  "(ArrayDevSlot_init slot (Status s) desc dev (Some ident) (Some flt) = Inr el
      \<longrightarrow> (identify el \<longleftrightarrow> ident \<noteq> ''0'') \<and> (fault el \<longleftrightarrow> flt \<noteq> ''0''))
   \<and> (ArrayDevSlot_init slot (Packed n) desc dev i f = Inr el
      \<longrightarrow> (identify el \<longleftrightarrow> drop_bit 8 n AND 2 \<noteq> 0) \<and> (identify el \<longleftrightarrow> bit n 9)
          \<and> (fault el \<longleftrightarrow> n AND 32 \<noteq> 0) \<and> (fault el \<longleftrightarrow> bit n 5))"
proof (intro conjI impI)
  assume a: "ArrayDevSlot_init slot (Status s) desc dev (Some ident) (Some flt) = Inr el"
  with ArrayDevSlot_init_total [of slot "Status s" desc dev "Some ident" "Some flt"]
  have "el_identify el = Some (Some ident)" "el_fault el = Some (Some flt)" by auto
  then show "identify el \<longleftrightarrow> ident \<noteq> ''0''" "fault el \<longleftrightarrow> flt \<noteq> ''0''"
    by (simp_all add: identify_def fault_def)
next
  assume a: "ArrayDevSlot_init slot (Packed n) desc dev i f = Inr el"
  with ArrayDevSlot_init_total [of slot "Packed n" desc dev i f]
  have e: "el_identify el = None" "el_fault el = None" "el_value_raw el = Packed n" by auto
  then show "identify el \<longleftrightarrow> drop_bit 8 n AND 2 \<noteq> 0" "fault el \<longleftrightarrow> n AND 32 \<noteq> 0"
    by (simp_all add: identify_def fault_def)
  from e show "identify el \<longleftrightarrow> bit n 9" "fault el \<longleftrightarrow> bit n 5"
    by (simp_all add: identify_def fault_def bit9_test bit5_test)
qed


theorem ArrayDevSlot_flags_witness:
  "ArrayDevSlot_init 3 (Status ''OK'') [] ''sda'' (Some ''1'') (Some ''0'') =
     Inr \<lparr> el_kind = ArrayDevSlot, el_name = ''Array Device Slot'', el_slot = 3,
           el_value_raw = Status ''OK'', el_descriptor = [],
           el_identify = Some (Some ''1''), el_fault = Some (Some ''0''),
           el_devname = Some ''sda'' \<rparr>
   \<and> identify \<lparr> el_kind = ArrayDevSlot, el_name = ''Array Device Slot'', el_slot = 3,
           el_value_raw = Status ''OK'', el_descriptor = [],
           el_identify = Some (Some ''1''), el_fault = Some (Some ''0''),
           el_devname = Some ''sda'' \<rparr>
   \<and> \<not> fault \<lparr> el_kind = ArrayDevSlot, el_name = ''Array Device Slot'', el_slot = 3,
           el_value_raw = Status ''OK'', el_descriptor = [],
           el_identify = Some (Some ''1''), el_fault = Some (Some ''0''),
           el_devname = Some ''sda'' \<rparr>"
proof -
  let ?el = "\<lparr> el_kind = ArrayDevSlot, el_name = ''Array Device Slot'', el_slot = 3,
           el_value_raw = Status ''OK'', el_descriptor = [],
           el_identify = Some (Some ''1''), el_fault = Some (Some ''0''),
           el_devname = Some ''sda'' \<rparr>"
  have h: "ArrayDevSlot_init 3 (Status ''OK'') [] ''sda'' (Some ''1'') (Some ''0'') = Inr ?el"
    by code_simp
  show ?thesis
    using h ArrayDevSlot_flags [of 3 "''OK''" "[]" "''sda''" "''1''" "''0''" ?el]
    by simp
qed

text \<open>
  Claim C9 as stated fails: the string \<open>00\<close> denotes zero, yet both flags are true,
  because the code compares with the literal \<open>0\<close>.
\<close>

theorem ArrayDevSlot_flags_counterexample:
  "map_sum id identify
     (ArrayDevSlot_init 3 (Status ''OK'') [] ''sda'' (Some ''00'') (Some ''00'')) = Inr True
   \<and> map_sum id fault
     (ArrayDevSlot_init 3 (Status ''OK'') [] ''sda'' (Some ''00'') (Some ''00'')) = Inr True
   \<and> \<not> spec_denotes_nonzero ''00''"
  by code_simp

subsection \<open>Status walk\<close>

text \<open>
  Claim C2, as amended. In the status walk a line that has none of the three
  recognised shapes resets the carried element number to \<open>None\<close> and leaves the carried
  element type as it was; it appends no element and raises nothing.
\<close>

theorem unrecognised_line_keeps_type:
  "line_shape line = Unrecognised \<Longrightarrow>
     parse_line encname model (element_type, element_number) line =
       Inr ((element_type, None), None)"
  by (auto simp add: line_shape_def parse_line_def split: if_splits option.splits)

theorem unrecognised_line_keeps_type_witness:
  "line_shape ''        Predicted failure=0, Disabled=0, Swap=0'' = Unrecognised
   \<and> parse_line ''iX 4024Sp'' ''M Series'' (Some ''Cooling'', Some 3)
         ''        Predicted failure=0, Disabled=0, Swap=0'' =
       Inr ((Some ''Cooling'', None), None)"
proof -
  have h: "line_shape ''        Predicted failure=0, Disabled=0, Swap=0'' = Unrecognised"
    by code_simp
  show ?thesis
    using h unrecognised_line_keeps_type [OF h, of "''iX 4024Sp''" "''M Series''" "Some ''Cooling''" "Some 3"]
    by simp
qed

text \<open>
  Claim C2 as stated fails: after an unrecognised line the element type is still the
  one of the last header.
\<close>

theorem unrecognised_line_counterexample:
  "line_shape ''        Predicted failure=0, Disabled=0, Swap=0'' = Unrecognised
   \<and> map_sum id (fst \<circ> fst)
        (parse_line ''iX 4024Sp'' ''M Series'' (Some ''Cooling'', Some 3)
           ''        Predicted failure=0, Disabled=0, Swap=0'') = Inr (Some ''Cooling'')"
  by code_simp

text \<open>
  The walk relies on this: the lines between a header and its elements are not
  recognised, and the elements still get the header's type.
\<close>

lemma type_survives_unrecognised_line:
  "map_sum id (map (\<lambda>el. (el_name el, el_slot el)))
     (parse_status ''iX 4024Sp'' ''M Series'' (None, None)
        [''    Element type: Cooling, subenclosure id: 0 [ti=3]'',
         ''      Overall descriptor: <empty>'',
         ''      Element 1 descriptor: Fan 2'',
         ''        01 00 02 20'']) = Inr [(''Cooling'', 2)]"
  by code_simp

text \<open>
  Claim C10. One iteration of the walk appends an element only on a raw hex-byte line
  and only when the carried element number is an integer other than zero; the element
  is stored with slot equal to that number plus one. With the carried number zero a
  hex-byte line appends nothing, whatever the carried type is.
\<close>

theorem hex_line_element:
  "(parse_line encname model (element_type, element_number) line = Inr (st', Some el)
      \<longrightarrow> line_shape line = Hex_line
          \<and> (\<exists>n. element_number = Some n \<and> n \<noteq> 0 \<and> el_slot el = n + 1))
   \<and> (line_shape line = Hex_line
      \<longrightarrow> parse_line encname model (element_type, Some 0) line =
            Inr ((element_type, None), None))"
proof (intro conjI impI)
  assume a: "parse_line encname model (element_type, element_number) line = Inr (st', Some el)"
  then show "line_shape line = Hex_line"
    by (auto simp add: line_shape_def parse_line_def Let_def split: if_splits option.splits)
  from a show "\<exists>n. element_number = Some n \<and> n \<noteq> 0 \<and> el_slot el = n + 1"
    by (auto simp add: parse_line_def Let_def dest: enclosure_element_slot
        split: if_splits option.splits sum.splits)
next
  assume "line_shape line = Hex_line"
  then show "parse_line encname model (element_type, Some 0) line =
            Inr ((element_type, None), None)"
    by (auto simp add: line_shape_def parse_line_def split: if_splits option.splits)
qed

theorem hex_line_element_witness:
  "parse_line ''iX 4024Sp'' ''M Series'' (Some ''Cooling'', Some 1) ''        01 00 02 20'' =
     Inr ((Some ''Cooling'', None),
          Some \<lparr> el_kind = Cooling, el_name = ''Cooling'', el_slot = 2,
                 el_value_raw = Packed 16777760, el_descriptor = [],
                 el_identify = None, el_fault = None, el_devname = None \<rparr>)
   \<and> line_shape ''        01 00 02 20'' = Hex_line
   \<and> parse_line ''iX 4024Sp'' ''M Series'' (Some ''Cooling'', Some 0) ''        01 00 02 20'' =
       Inr ((Some ''Cooling'', None), None)"
proof -
  let ?el = "\<lparr> el_kind = Cooling, el_name = ''Cooling'', el_slot = 2,
                 el_value_raw = Packed 16777760, el_descriptor = [],
                 el_identify = None, el_fault = None, el_devname = None \<rparr>"
  have h: "parse_line ''iX 4024Sp'' ''M Series'' (Some ''Cooling'', Some 1) ''        01 00 02 20'' =
     Inr ((Some ''Cooling'', None), Some ?el)"
    by code_simp
  show ?thesis
    using h hex_line_element [of "''iX 4024Sp''" "''M Series''" "Some ''Cooling''" "Some 1"
        "''        01 00 02 20''" "(Some ''Cooling'', None)" ?el]
    by simp
qed

lemma element_zero_produces_nothing:
  "parse_status ''iX 4024Sp'' ''M Series'' (None, None)
     [''    Element type: Cooling, subenclosure id: 0 [ti=3]'',
      ''      Element 0 descriptor: Fan 1'',
      ''        01 00 02 20''] = Inr []"
  by code_simp


subsection \<open>Element factory and its exclusion rules\<close>

text \<open>
  The two exclusion tests of the factory: the chassis whose name starts with
  \<open>ECStream 3U16+4R-4X6G.3\<close> loses every slot above 16, and a model that starts with
  the five characters \<open>R50, \<close> loses every slot from 25 on. Neither raises.
\<close>

lemma legacy_chassis_drops:
  "prefix ''ECStream 3U16+4R-4X6G.3'' encname \<Longrightarrow> 16 < slot \<Longrightarrow>
     enclosure_element encname model slot ''Array Device Slot'' v desc dev ident flt = Inr None"
  by (simp add: enclosure_element_array_slot dropped_slot_def)

lemma r50_literal_drops:
  "prefix ''R50, '' model \<Longrightarrow> 25 \<le> slot \<Longrightarrow>
     enclosure_element encname model slot ''Array Device Slot'' v desc dev ident flt = Inr None"
  by (simp add: enclosure_element_array_slot dropped_slot_def)

text \<open>
  The classifier names an R50 chassis by its product name without \<open>TRUENAS-\<close>, that
  is \<open>R50\<close>, \<open>R50B\<close> or \<open>R50BM\<close>; none of them starts with \<open>R50, \<close>.
\<close>

lemma r50_model_never_literal:
  "set_model ''iX eDrawer4048S1'' ''TRUENAS-R50'' data = (''R50'', True)
   \<and> set_model ''iX eDrawer4048S2'' ''TRUENAS-R50B'' data = (''R50B'', True)
   \<and> set_model ''iX eDrawer4048S1'' ''TRUENAS-R50BM'' data = (''R50BM'', True)
   \<and> \<not> prefix ''R50, '' ''R50'' \<and> \<not> prefix ''R50, '' ''R50B'' \<and> \<not> prefix ''R50, '' ''R50BM''"
  by (simp add: set_model_def starts_with_any_def M_SERIES_REGEX_def R_SERIES_REGEX_def
        R20_REGEX_def R50_REGEX_def)

text \<open>
  Claim C7. On the legacy 16-bay chassis the slots above 16 are dropped, as the claim
  says (\<open>legacy_chassis_drops\<close>, \<open>legacy_reconciled_slots\<close>). On an R50 the second rule
  does not fire: the factory, given the model the classifier computes for the product
  \<open>TRUENAS-R50\<close>, returns an \<open>ArrayDevSlot\<close> for slot 25.
\<close>

theorem r50_slot_25_kept:
  "enclosure_element ''iX eDrawer4048S1'' (fst (set_model ''iX eDrawer4048S1'' ''TRUENAS-R50'' []))
     25 ''Array Device Slot'' (Packed 83886080) [] [] None None =
     Inr (Some \<lparr> el_kind = ArrayDevSlot, el_name = ''Array Device Slot'', el_slot = 25,
                 el_value_raw = Packed 83886080, el_descriptor = [],
                 el_identify = None, el_fault = None, el_devname = Some [] \<rparr>)"
  by code_simp

lemma r50_reconciled_slots:
  "map_sum id (map el_slot)
     (map_disks_to_enclosure_slots ''iX eDrawer4048S1''
        (fst (set_model ''iX eDrawer4048S1'' ''TRUENAS-R50'' [])) False
        [\<lparr> sd_name = ''Slot24'', sd_slot = Some 24, sd_status = Some ''OK'',
            sd_locate = Some ''0'', sd_fault = Some ''0'', sd_block = Some [''sdx''] \<rparr>,
         \<lparr> sd_name = ''Slot25'', sd_slot = Some 25, sd_status = Some ''not installed'',
            sd_locate = Some ''0'', sd_fault = Some ''0'', sd_block = None \<rparr>]
        []) = Inr [24, 25]"
  by code_simp

lemma legacy_reconciled_slots:
  "map_sum id (map el_slot)
     (map_disks_to_enclosure_slots ''ECStream 3U16+4R-4X6G.3 d10c'' ''E16'' False
        [\<lparr> sd_name = ''Slot16'', sd_slot = Some 16, sd_status = Some ''OK'',
            sd_locate = Some ''0'', sd_fault = Some ''0'', sd_block = Some [''sdx''] \<rparr>,
         \<lparr> sd_name = ''Slot20'', sd_slot = Some 20, sd_status = Some ''not installed'',
            sd_locate = Some ''0'', sd_fault = Some ''0'', sd_block = None \<rparr>]
        []) = Inr [16]"
  by code_simp


subsection \<open>Slot reconciliation\<close>

lemma map_of_dict_set: "map_of (dict_set k v m) = (map_of m)(k \<mapsto> v)"
  by (induction m) auto

lemma map_fst_dict_set:
  "map fst (dict_set k v m) = (if k \<in> set (map fst m) then map fst m else map fst m @ [k])"
  by (induction m) (force simp add: image_iff)+

lemma dict_set_nonempty: "dict_set k v m \<noteq> []"
  by (cases m) (auto split: if_splits)

lemma collect_raw_values_lengths:
  assumes "\<forall>(k, v)\<in>set ses. length (se_status v) \<le> 4"
    and "\<forall>k bs. map_of acc k = Some bs \<longrightarrow> length bs \<le> 4"
  shows "\<forall>k bs. map_of (collect_raw_values ses acc) k = Some bs \<longrightarrow> length bs \<le> 4"
  using assms
proof (induction ses arbitrary: acc)
  case Nil
  then show ?case by simp
next
  case (Cons kv kvs)
  obtain k v where kv: "kv = (k, v)" by (cases kv)
  from Cons.prems(1) kv have len: "length (se_status v) \<le> 4"
    and rest: "\<forall>(k, v)\<in>set kvs. length (se_status v) \<le> 4"
    by simp_all
  have upd: "\<forall>k' bs. map_of (dict_set k (se_status v) acc) k' = Some bs \<longrightarrow> length bs \<le> 4"
    using len Cons.prems(2) by (simp add: map_of_dict_set)
  show ?case
  proof (cases "se_type v = 23 \<and> se_descriptor v \<noteq> ''<empty>''")
    case True
    then have "collect_raw_values (kv # kvs) acc = collect_raw_values kvs (dict_set k (se_status v) acc)"
      by (simp add: kv)
    then show ?thesis using Cons.IH [OF rest upd] by simp
  next
    case False
    then have "collect_raw_values (kv # kvs) acc = collect_raw_values kvs acc"
      by (auto simp add: kv)
    then show ?thesis using Cons.IH [OF rest Cons.prems(2)] by simp
  qed
qed


lemma add_slots_step:
  assumes m: "map_of mapping slot = Some (disk, slot_status, ident, flt)"
    and len: "is_hseries \<or> length (case map_of disk_raw_values slot of
                                      None \<Rightarrow> [5, 0, 0, 0] | Some bs \<Rightarrow> bs) \<le> 4"
    and rest: "add_slots encname model is_hseries mapping disk_raw_values slots = Inr els"
  shows "\<exists>new. add_slots encname model is_hseries mapping disk_raw_values (slot # slots) =
             Inr (new @ els)
           \<and> map el_slot new = (if dropped_slot encname model slot then [] else [slot])
           \<and> (\<forall>el\<in>set new. el_kind el = ArrayDevSlot)"
proof (cases "dropped_slot encname model slot")
  case True
  show ?thesis
  proof (cases is_hseries)
    case h: True
    with True m rest show ?thesis
      by (simp add: enclosure_element_array_slot)
  next
    case h: False
    with len obtain raw where "parse_raw_value (Bytes (case map_of disk_raw_values slot of
                                      None \<Rightarrow> [5, 0, 0, 0] | Some bs \<Rightarrow> bs)) = Inr raw"
      using packed_formula_value by blast
    with h True m rest show ?thesis
      by (simp add: enclosure_element_array_slot)
  qed
next
  case False
  show ?thesis
  proof (cases is_hseries)
    case h: True
    obtain el where el: "ArrayDevSlot_init slot (Status slot_status) [] disk (Some ident) (Some flt) = Inr el"
      "el_slot el = slot" "el_kind el = ArrayDevSlot"
      using ArrayDevSlot_init_total by blast
    have "add_slots encname model is_hseries mapping disk_raw_values (slot # slots) = Inr ([el] @ els)"
      using h False m rest el(1) by (simp add: enclosure_element_array_slot)
    with el False show ?thesis by (intro exI [of _ "[el]"]) simp
  next
    case h: False
    with len obtain raw where raw: "parse_raw_value (Bytes (case map_of disk_raw_values slot of
                                      None \<Rightarrow> [5, 0, 0, 0] | Some bs \<Rightarrow> bs)) = Inr raw"
      using packed_formula_value by blast
    obtain el where el: "ArrayDevSlot_init slot (Packed raw) [] disk None None = Inr el"
      "el_slot el = slot" "el_kind el = ArrayDevSlot"
      using ArrayDevSlot_init_total by blast
    have "add_slots encname model is_hseries mapping disk_raw_values (slot # slots) = Inr ([el] @ els)"
      using h False m rest el(1) raw by (simp add: enclosure_element_array_slot)
    with el False show ?thesis by (intro exI [of _ "[el]"]) simp
  qed
qed


lemma add_slots_result:
  assumes keys: "\<forall>s\<in>set slots. map_of mapping s \<noteq> None"
    and lens: "is_hseries \<or> (\<forall>k bs. map_of disk_raw_values k = Some bs \<longrightarrow> length bs \<le> 4)"
  shows "\<exists>els. add_slots encname model is_hseries mapping disk_raw_values slots = Inr els
           \<and> map el_slot els = filter (\<lambda>s. \<not> dropped_slot encname model s) slots
           \<and> (\<forall>el\<in>set els. el_kind el = ArrayDevSlot)"
  using keys
proof (induction slots)
  case Nil
  then show ?case by simp
next
  case (Cons slot slots)
  then obtain els where els: "add_slots encname model is_hseries mapping disk_raw_values slots = Inr els"
    "map el_slot els = filter (\<lambda>s. \<not> dropped_slot encname model s) slots"
    "\<forall>el\<in>set els. el_kind el = ArrayDevSlot"
    by auto
  from Cons.prems obtain disk slot_status ident flt
    where m: "map_of mapping slot = Some (disk, slot_status, ident, flt)"
    by (cases "map_of mapping slot") auto
  have len: "is_hseries \<or> length (case map_of disk_raw_values slot of
                                      None \<Rightarrow> [5, 0, 0, 0] | Some bs \<Rightarrow> bs) \<le> 4"
    using lens by (auto split: option.splits)
  from add_slots_step [OF m len els(1)] obtain new
    where new: "add_slots encname model is_hseries mapping disk_raw_values (slot # slots) =
             Inr (new @ els)"
      "map el_slot new = (if dropped_slot encname model slot then [] else [slot])"
      "\<forall>el\<in>set new. el_kind el = ArrayDevSlot"
    by blast
  show ?case
  proof (intro exI [of _ "new @ els"] conjI)
    show "add_slots encname model is_hseries mapping disk_raw_values (slot # slots) = Inr (new @ els)"
      by (rule new(1))
    show "map el_slot (new @ els) = filter (\<lambda>s. \<not> dropped_slot encname model s) (slot # slots)"
      using new(2) els(2) by simp
    show "\<forall>el\<in>set (new @ els). el_kind el = ArrayDevSlot"
      using new(3) els(3) by auto
  qed
qed

lemma shift_mapping_keys:
  "map fst (shift_mapping mapping) =
     map (\<lambda>k. if min_list (map fst mapping) = 0 then k + 1 else k) (map fst mapping)"
  by (simp add: shift_mapping_def case_prod_unfold comp_def)

text \<open>
  The raw slot indices observed: those read from the directories that are not skipped.
\<close>

lemma raw_slot_indices:
  "set (map fst (collect_mapping is_hseries dirs mapping)) =
     set (map fst mapping)
     \<union> {slot. \<exists>d\<in>set dirs. \<not> (is_hseries \<and> sd_name d \<in> set ignore)
                \<and> map_option fst (read_slot_dir d) = Some slot}"
proof (induction dirs arbitrary: mapping)
  case Nil
  then show ?case by simp
next
  case (Cons d ds)
  show ?case
  proof (cases "is_hseries \<and> sd_name d \<in> set ignore")
    case True
    then show ?thesis using Cons.IH [of mapping] by auto
  next
    case False
    show ?thesis
    proof (cases "read_slot_dir d")
      case None
      with False show ?thesis using Cons.IH [of mapping] by auto
    next
      case (Some sv)
      obtain slot dev st ident flt where sv: "sv = (slot, dev, st, ident, flt)"
        by (cases sv)
      let ?v = "(dev, st, ident, flt)"
      have "set (map fst (dict_set slot ?v mapping)) = insert slot (set (map fst mapping))"
        by (simp only: map_fst_dict_set) auto
      with False Some sv show ?thesis using Cons.IH [of "dict_set slot ?v mapping"] by auto
    qed
  qed
qed

text \<open>
  Claim C5. For an enclosure whose slot mapping is not empty (and whose SES status
  entries have at most four bytes, so that the packing returns), the reconciliation
  returns \<open>ArrayDevSlot\<close> elements whose slot numbers are, in ascending order, the raw
  indices read from the operating system, each plus one when the least raw index is
  0 and unchanged otherwise, without those the factory drops.
\<close>

theorem slot_numbering:
  assumes nonempty: "collect_mapping is_hseries dirs [] \<noteq> []"
    and lens: "is_hseries \<or> (\<forall>(k, v)\<in>set ses. length (se_status v) \<le> 4)"
  shows "\<exists>els. map_disks_to_enclosure_slots encname model is_hseries dirs ses = Inr els
           \<and> map el_slot els =
               filter (\<lambda>s. \<not> dropped_slot encname model s)
                 (sort (map (\<lambda>k. if min_list (map fst (collect_mapping is_hseries dirs [])) = 0
                                  then k + 1 else k)
                          (map fst (collect_mapping is_hseries dirs []))))
           \<and> (\<forall>el\<in>set els. el_kind el = ArrayDevSlot)"
proof -
  let ?mapping = "collect_mapping is_hseries dirs []"
  let ?shifted = "shift_mapping ?mapping"
  let ?raw = "if \<not> is_hseries then collect_raw_values ses [] else []"
  have keys: "\<forall>s\<in>set (sort (map fst ?shifted)). map_of ?shifted s \<noteq> None"
    by (auto simp add: map_of_eq_None_iff)
  have lens': "is_hseries \<or> (\<forall>k bs. map_of ?raw k = Some bs \<longrightarrow> length bs \<le> 4)"
  proof (cases is_hseries)
    case True
    then show ?thesis by simp
  next
    case False
    with lens have "\<forall>(k, v)\<in>set ses. length (se_status v) \<le> 4" by simp
    then have "\<forall>k bs. map_of (collect_raw_values ses []) k = Some bs \<longrightarrow> length bs \<le> 4"
      by (rule collect_raw_values_lengths) simp
    with False show ?thesis by simp
  qed
  have run: "map_disks_to_enclosure_slots encname model is_hseries dirs ses =
      add_slots encname model is_hseries ?shifted ?raw (sort (map fst ?shifted))"
    using nonempty by (simp add: map_disks_to_enclosure_slots_def Let_def)
  from add_slots_result [OF keys lens', of encname model]
  show ?thesis
    unfolding run shift_mapping_keys .
qed


theorem slot_numbering_witness:
  "collect_mapping False
     [\<lparr> sd_name = ''0'', sd_slot = Some 0, sd_status = Some ''OK'',
        sd_locate = Some ''0'', sd_fault = Some ''0'', sd_block = Some [''sda''] \<rparr>,
      \<lparr> sd_name = ''power'', sd_slot = None, sd_status = None,
        sd_locate = None, sd_fault = None, sd_block = None \<rparr>,
      \<lparr> sd_name = ''1'', sd_slot = Some 1, sd_status = Some ''not installed'',
        sd_locate = Some ''0'', sd_fault = Some ''0'', sd_block = None \<rparr>] [] \<noteq> []
   \<and> map_sum id (map el_slot)
        (map_disks_to_enclosure_slots ''iX 4024Sp'' ''M Series'' False
           [\<lparr> sd_name = ''0'', sd_slot = Some 0, sd_status = Some ''OK'',
              sd_locate = Some ''0'', sd_fault = Some ''0'', sd_block = Some [''sda''] \<rparr>,
            \<lparr> sd_name = ''power'', sd_slot = None, sd_status = None,
              sd_locate = None, sd_fault = None, sd_block = None \<rparr>,
            \<lparr> sd_name = ''1'', sd_slot = Some 1, sd_status = Some ''not installed'',
              sd_locate = Some ''0'', sd_fault = Some ''0'', sd_block = None \<rparr>]
           [(1, \<lparr> se_type = 23, se_descriptor = ''slot01'', se_status = [1, 0, 2, 0] \<rparr>)])
       = Inr [1, 2]"
proof -
  let ?dirs = "[\<lparr> sd_name = ''0'', sd_slot = Some 0, sd_status = Some ''OK'',
        sd_locate = Some ''0'', sd_fault = Some ''0'', sd_block = Some [''sda''] \<rparr>,
      \<lparr> sd_name = ''power'', sd_slot = None, sd_status = None,
        sd_locate = None, sd_fault = None, sd_block = None \<rparr>,
      \<lparr> sd_name = ''1'', sd_slot = Some 1, sd_status = Some ''not installed'',
        sd_locate = Some ''0'', sd_fault = Some ''0'', sd_block = None \<rparr>]"
  let ?ses = "[(1, \<lparr> se_type = 23, se_descriptor = ''slot01'', se_status = [1, 0, 2, 0] \<rparr>)]"
  have h1: "collect_mapping False ?dirs [] \<noteq> []"
    by code_simp
  have h2: "False \<or> (\<forall>(k, v)\<in>set ?ses. length (se_status v) \<le> 4)"
    by simp
  have keys: "filter (\<lambda>s. \<not> dropped_slot ''iX 4024Sp'' ''M Series'' s)
                 (sort (map (\<lambda>k. if min_list (map fst (collect_mapping False ?dirs [])) = 0
                                  then k + 1 else k)
                          (map fst (collect_mapping False ?dirs [])))) = [1, 2]"
    by code_simp
  define res where "res = map_disks_to_enclosure_slots ''iX 4024Sp'' ''M Series'' False ?dirs ?ses"
  have "\<exists>els. res = Inr els \<and> map el_slot els = [1, 2]
          \<and> (\<forall>el\<in>set els. el_kind el = ArrayDevSlot)"
    using slot_numbering [OF h1 h2, of "''iX 4024Sp''" "''M Series''"]
    by (simp only: keys res_def)
  then have "map_sum id (map el_slot) res = Inr [1, 2]"
    by auto
  with h1 show ?thesis by (simp only: res_def simp_thms)
qed

text \<open>
  On the H series the directory named \<open>4\<close> is skipped and the least index is 1, so
  the indices are kept.
\<close>

lemma slot_numbering_unshifted_example:
  "map_sum id (map el_slot)
     (map_disks_to_enclosure_slots ''BROADCOM VirtualSES 03'' ''H Series'' True
        [\<lparr> sd_name = ''8'', sd_slot = Some 8, sd_status = Some ''OK'',
           sd_locate = Some ''1'', sd_fault = Some ''0'', sd_block = Some [''sda''] \<rparr>,
         \<lparr> sd_name = ''4'', sd_slot = Some 4, sd_status = Some ''OK'',
           sd_locate = Some ''0'', sd_fault = Some ''0'', sd_block = None \<rparr>,
         \<lparr> sd_name = ''1'', sd_slot = Some 1, sd_status = Some ''OK'',
           sd_locate = Some ''0'', sd_fault = Some ''0'', sd_block = None \<rparr>]
        []) = Inr [1, 8]"
  by code_simp


subsection \<open>Collection order and numbering\<close>

lemma assign_numbers_length: "length (assign_numbers xs) = length xs"
  by (simp add: assign_numbers_def)

lemma assign_numbers_nth:
  "i < length xs \<Longrightarrow> assign_numbers xs ! i = (xs ! i)\<lparr> q_number := Some (int i) \<rparr>"
  by (simp add: assign_numbers_def nth_enumerate_eq)

lemma numbered_enclosures_nth:
  assumes "i < length (numbered_enclosures encs map_nvme map_enclosures rows)"
  shows "q_number (numbered_enclosures encs map_nvme map_enclosures rows ! i) = Some (int i)"
  using assms
  by (simp add: numbered_enclosures_def assign_numbers_length assign_numbers_nth assign_label_def)

lemma collect_marker_first:
  assumes "(\<exists>enc\<in>set encs. sublist first_expander (e_name enc))
           \<or> (acc \<noteq> [] \<and> sublist first_expander (q_name (hd acc)))"
  shows "collect encs acc \<noteq> [] \<and> sublist first_expander (q_name (hd (collect encs acc)))"
  using assms
proof (induction encs arbitrary: acc)
  case Nil
  then show ?case by simp
next
  case (Cons enc encs)
  show ?case
  proof (cases "sublist first_expander (e_name enc)")
    case True
    then have "collect (enc # encs) acc = collect encs (enclosure_to_dict enc # acc)"
      by (simp add: enclosure_to_dict_def Let_def)
    moreover have "collect encs (enclosure_to_dict enc # acc) \<noteq> []
        \<and> sublist first_expander (q_name (hd (collect encs (enclosure_to_dict enc # acc))))"
      using True by (intro Cons.IH) (simp add: enclosure_to_dict_def)
    ultimately show ?thesis by simp
  next
    case False
    then have eq: "collect (enc # encs) acc = collect encs (acc @ [enclosure_to_dict enc])"
      by (simp add: enclosure_to_dict_def Let_def)
    from False Cons.prems have
      "(\<exists>enc\<in>set encs. sublist first_expander (e_name enc))
           \<or> (acc \<noteq> [] \<and> sublist first_expander (q_name (hd acc)))"
      by auto
    then have "(\<exists>enc\<in>set encs. sublist first_expander (e_name enc))
           \<or> (acc @ [enclosure_to_dict enc] \<noteq> []
               \<and> sublist first_expander (q_name (hd (acc @ [enclosure_to_dict enc]))))"
      by auto
    then show ?thesis unfolding eq by (rule Cons.IH)
  qed
qed

text \<open>
  Claim C1, as amended. The list that \<open>query\<close> hands to \<open>filter_list\<close> is a stable sort
  of the numbered list: it has the same enclosures, ordered with controllers before
  non-controllers and then by id, enclosures of equal key staying in their earlier
  order, with no exception for the first-expander marker. Each enclosure's \<open>number\<close>
  is its 0-based position in the list before that sort. An enclosure whose name
  contains \<open>eDrawer4048S1\<close> is put at the front of the list as it is collected, that
  is before the NVMe enclosures are appended, \<open>enclosure.map_enclosures\<close> is applied and
  the list is numbered and sorted.
\<close>

theorem query_order_and_numbers:
  "(is_ix_hardware \<longrightarrow>
      mset (query_sorted is_ix_hardware encs map_nvme map_enclosures rows) =
        mset (numbered_enclosures encs map_nvme map_enclosures rows)
      \<and> (\<forall>k. filter (\<lambda>e. sort_rank e = k)
                 (query_sorted is_ix_hardware encs map_nvme map_enclosures rows) =
               filter (\<lambda>e. sort_rank e = k)
                 (numbered_enclosures encs map_nvme map_enclosures rows)))
   \<and> sorted (map sort_rank (query_sorted is_ix_hardware encs map_nvme map_enclosures rows))
   \<and> (\<forall>i<length (numbered_enclosures encs map_nvme map_enclosures rows).
         q_number (numbered_enclosures encs map_nvme map_enclosures rows ! i) = Some (int i))
   \<and> ((\<exists>enc\<in>set encs. sublist first_expander (e_name enc)) \<longrightarrow>
         collect encs [] \<noteq> [] \<and> sublist first_expander (q_name (hd (collect encs []))))"
proof (intro conjI impI allI)
  assume is_ix_hardware
  then show "mset (query_sorted is_ix_hardware encs map_nvme map_enclosures rows) =
        mset (numbered_enclosures encs map_nvme map_enclosures rows)"
    by (simp add: query_sorted_def)
next
  fix k assume is_ix_hardware
  then show "filter (\<lambda>e. sort_rank e = k)
                 (query_sorted is_ix_hardware encs map_nvme map_enclosures rows) =
               filter (\<lambda>e. sort_rank e = k)
                 (numbered_enclosures encs map_nvme map_enclosures rows)"
    by (simp add: query_sorted_def sort_key_stable)
next
  show "sorted (map sort_rank (query_sorted is_ix_hardware encs map_nvme map_enclosures rows))"
    by (simp add: query_sorted_def)
next
  fix i assume "i < length (numbered_enclosures encs map_nvme map_enclosures rows)"
  then show "q_number (numbered_enclosures encs map_nvme map_enclosures rows ! i) = Some (int i)"
    by (rule numbered_enclosures_nth)
next
  assume "\<exists>enc\<in>set encs. sublist first_expander (e_name enc)"
  then have "(\<exists>enc\<in>set encs. sublist first_expander (e_name enc))
           \<or> ([] \<noteq> [] \<and> sublist first_expander (q_name (hd ([] :: enclosure_dict list))))"
    by simp
  then have "collect encs [] \<noteq> [] \<and> sublist first_expander (q_name (hd (collect encs [])))"
    by (rule collect_marker_first)
  then show "collect encs [] \<noteq> []" "sublist first_expander (q_name (hd (collect encs [])))"
    by simp_all
qed

text \<open>The order on the keys: the controller flag first, then the id.\<close>

lemma sort_rank_order:
  "sort_rank a \<le> sort_rank b \<longleftrightarrow>
     (q_controller a \<and> \<not> q_controller b)
     \<or> (q_controller a = q_controller b \<and> q_id a \<le> q_id b)"
  by (auto simp add: sort_rank_def)

theorem query_order_and_numbers_witness:
  "sorted (map sort_rank (query_sorted True r50_expanders [] id []))
   \<and> mset (query_sorted True r50_expanders [] id []) =
       mset (numbered_enclosures r50_expanders [] id [])
   \<and> q_number (numbered_enclosures r50_expanders [] id [] ! 1) = Some 1
   \<and> sublist first_expander (q_name (hd (collect r50_expanders [])))"
proof -
  have h1: "(1::nat) < length (numbered_enclosures r50_expanders [] id [])"
    by code_simp
  have h2: "\<exists>enc\<in>set r50_expanders. sublist first_expander (e_name enc)"
    by code_simp
  show ?thesis
    using h1 h2 query_order_and_numbers [of True r50_expanders "[]" id "[]"]
    by simp
qed

text \<open>
  Claim C1 as stated fails on the two expanders of an R50 when the second has the
  smaller id: the first expander is at position 1 of the result, and the numbers of
  the result are 1 and 0.
\<close>

theorem query_order_counterexample:
  "map q_name (query_sorted True r50_expanders [] id []) =
     [''iX eDrawer4048S2 0301'', ''iX eDrawer4048S1 0301'']
   \<and> map q_controller (query_sorted True r50_expanders [] id []) = [True, True]
   \<and> map q_id (query_sorted True r50_expanders [] id []) =
     [''5b0bd6d1a30714bf'', ''5b0bd6d1a30714ff'']
   \<and> map q_number (query_sorted True r50_expanders [] id []) = [Some 1, Some 0]"
  by code_simp

text \<open>
  The example of the specification: the non-controller \<open>a\<close> stays behind the controller
  \<open>b\<close> although its name contains the marker.
\<close>

lemma spec_ordering_example:
  "map q_id (query_sorted True
     [\<lparr> e_encid = ''b'', e_devname = ''bsg/0:0:0:0'', e_name = ''iX 4024Sp e001'',
        e_model = ''M Series'', e_controller = True, e_elements = [] \<rparr>,
      \<lparr> e_encid = ''a'', e_devname = ''bsg/1:0:0:0'', e_name = ''JBOD eDrawer4048S1'',
        e_model = [], e_controller = False, e_elements = [] \<rparr>] [] id []) = [''b'', ''a'']"
  by code_simp


subsection \<open>Slot control\<close>

lemma run_actions_accepted:
  "\<forall>action\<in>set actions. \<not> set_control_fails be path slot action \<Longrightarrow>
     run_actions be path slot actions = (map (Set_control path slot) actions, True)"
  by (induction actions) auto

lemma get_orig_unmapped:
  "enclosure_id \<noteq> ''mapped_enclosure_0'' \<Longrightarrow>
     get_orig_enclosure_and_disk enclosure_id slot info = Inr (Some (bsg, original_slot)) \<Longrightarrow>
     bsg = q_bsg info \<and> original_slot = slot"
  by (auto simp add: get_orig_enclosure_and_disk_def split: list.splits)

text \<open>
  Claim C3, as amended. For an enclosure that is neither one of the dedicated NVMe
  enclosures nor an H series, with a slot that resolves to an original device and an
  original slot, and a control interface that accepts the commands: \<open>CLEAR\<close> issues
  exactly the two actions \<open>clear=ident\<close> and \<open>clear=fault\<close>, in that order, \<open>FAULT\<close>
  exactly \<open>set=fault\<close> and \<open>IDENTIFY\<close> exactly \<open>set=ident\<close>, each addressed to the
  original slot minus one on the original device. The original slot is the requested
  slot, and the device the enclosure's own, unless the enclosure id is
  \<open>mapped_enclosure_0\<close>; then both come from the element's \<open>original\<close> entry.
\<close>

theorem set_slot_status_generic:
  assumes nvme: "enclosure_id \<notin> set nvme_ids"
    and model: "q_model info \<noteq> ''H Series''"
    and orig: "get_orig_enclosure_and_disk enclosure_id slot info =
                 Inr (Some (original_bsg, original_slot))"
    and ok: "\<forall>action. \<not> set_control_fails be (''/dev/'' @ original_bsg)
                           (str_int (original_slot - 1)) action"
  shows "set_slot_status be (info # rest) enclosure_id slot ''CLEAR'' =
           ([Set_control (''/dev/'' @ original_bsg) (str_int (original_slot - 1)) ''clear=ident'',
             Set_control (''/dev/'' @ original_bsg) (str_int (original_slot - 1)) ''clear=fault''],
            Inr ())
       \<and> set_slot_status be (info # rest) enclosure_id slot ''FAULT'' =
           ([Set_control (''/dev/'' @ original_bsg) (str_int (original_slot - 1)) ''set=fault''],
            Inr ())
       \<and> set_slot_status be (info # rest) enclosure_id slot ''IDENTIFY'' =
           ([Set_control (''/dev/'' @ original_bsg) (str_int (original_slot - 1)) ''set=ident''],
            Inr ())
       \<and> (enclosure_id \<noteq> ''mapped_enclosure_0'' \<longrightarrow>
           original_slot = slot \<and> original_bsg = q_bsg info)"
proof -
  have ids: "enclosure_id \<noteq> ''r30_nvme_enclosure''" "enclosure_id \<noteq> ''f60_nvme_enclosure''"
    "enclosure_id \<noteq> ''f100_nvme_enclosure''" "enclosure_id \<noteq> ''f130_nvme_enclosure''"
    using nvme by (auto simp add: nvme_ids_def)
  have run: "run_actions be (''/dev/'' @ original_bsg) (str_int (original_slot - 1)) actions =
      (map (Set_control (''/dev/'' @ original_bsg) (str_int (original_slot - 1))) actions, True)"
    for actions
    using ok by (intro run_actions_accepted) simp
  have acts: "control_actions ''CLEAR'' = [''clear=ident'', ''clear=fault'']"
    "control_actions ''FAULT'' = [''set=fault'']"
    "control_actions ''IDENTIFY'' = [''set=ident'']"
    by code_simp+
  have c: "set_slot_status be (info # rest) enclosure_id slot ''CLEAR'' =
           ([Set_control (''/dev/'' @ original_bsg) (str_int (original_slot - 1)) ''clear=ident'',
             Set_control (''/dev/'' @ original_bsg) (str_int (original_slot - 1)) ''clear=fault''],
            Inr ())"
    using ids model orig run [of "[''clear=ident'', ''clear=fault'']"]
    by (simp add: set_slot_status_def acts(1))
  have f: "set_slot_status be (info # rest) enclosure_id slot ''FAULT'' =
           ([Set_control (''/dev/'' @ original_bsg) (str_int (original_slot - 1)) ''set=fault''],
            Inr ())"
    using ids model orig run [of "[''set=fault'']"]
    by (simp add: set_slot_status_def acts(2))
  have i: "set_slot_status be (info # rest) enclosure_id slot ''IDENTIFY'' =
           ([Set_control (''/dev/'' @ original_bsg) (str_int (original_slot - 1)) ''set=ident''],
            Inr ())"
    using ids model orig run [of "[''set=ident'']"]
    by (simp add: set_slot_status_def acts(3))
  have m: "enclosure_id \<noteq> ''mapped_enclosure_0'' \<longrightarrow>
           original_slot = slot \<and> original_bsg = q_bsg info"
    using get_orig_unmapped [OF _ orig] by simp
  from c f i m show ?thesis by (intro conjI)
qed

theorem set_slot_status_generic_witness:
  "set_slot_status accepting [plain_info] ''5000ccab05116800'' 5 ''CLEAR'' =
     ([Set_control ''/dev/bsg/1:0:0:0'' ''4'' ''clear=ident'',
       Set_control ''/dev/bsg/1:0:0:0'' ''4'' ''clear=fault''], Inr ())
   \<and> set_slot_status accepting [plain_info] ''5000ccab05116800'' 5 ''FAULT'' =
     ([Set_control ''/dev/bsg/1:0:0:0'' ''4'' ''set=fault''], Inr ())
   \<and> set_slot_status accepting [plain_info] ''5000ccab05116800'' 5 ''IDENTIFY'' =
     ([Set_control ''/dev/bsg/1:0:0:0'' ''4'' ''set=ident''], Inr ())"
proof -
  have h1: "''5000ccab05116800'' \<notin> set nvme_ids"
    by code_simp
  have h2: "q_model plain_info \<noteq> ''H Series''"
    by code_simp
  have h3: "get_orig_enclosure_and_disk ''5000ccab05116800'' 5 plain_info =
              Inr (Some (''bsg/1:0:0:0'', 5))"
    by code_simp
  have h4: "\<forall>action. \<not> set_control_fails accepting (''/dev/'' @ ''bsg/1:0:0:0'')
                           (str_int (5 - 1)) action"
    by (simp add: accepting_def)
  have s: "str_int (5 - 1) = ''4''"
    by code_simp
  show ?thesis
    using set_slot_status_generic [OF h1 h2 h3 h4, of "[]"]
    by (simp only: s append.simps)
qed

text \<open>
  Claim C3 as stated fails on a remapped enclosure: slot 5 of \<open>mapped_enclosure_0\<close>
  is addressed as 8, the original slot 9 minus one, not as 4.
\<close>

theorem set_slot_status_generic_counterexample:
  "set_slot_status accepting [mapped_info] ''mapped_enclosure_0'' 5 ''CLEAR'' =
     ([Set_control ''/dev/bsg/0:0:1:0'' ''8'' ''clear=ident'',
       Set_control ''/dev/bsg/0:0:1:0'' ''8'' ''clear=fault''], Inr ())
   \<and> str_int (5 - 1) = ''4''
   \<and> q_model mapped_info \<noteq> ''H Series''
   \<and> ''mapped_enclosure_0'' \<notin> set nvme_ids"
  by code_simp

text \<open>
  When the control interface rejects the first action, the second is not issued and
  the call fails with the error that names the state, the slot and the enclosure.
\<close>

lemma set_slot_status_io_failure:
  "set_slot_status
     \<lparr> toggle_missing = (\<lambda>path slot. False),
       set_control_fails = (\<lambda>path slot action. True) \<rparr>
     [plain_info] ''5000ccab05116800'' 5 ''CLEAR'' =
     ([Set_control ''/dev/bsg/1:0:0:0'' ''4'' ''clear=ident''],
      Inl (CallError (Failed_to_set ''CLEAR'' 5 ''5000ccab05116800'') Errno_default))"
  by code_simp

lemma sysfs_to_ui_keys: "map_of sysfs_to_ui slot = None \<longleftrightarrow> slot < 1 \<or> 12 < slot"
proof -
  have "map_of sysfs_to_ui slot = None \<longleftrightarrow> slot \<notin> set (map fst sysfs_to_ui)"
    by (simp add: map_of_eq_None_iff)
  also have "\<dots> \<longleftrightarrow> slot \<notin> {1..12}"
    by (simp add: sysfs_to_ui_def) arith
  finally show ?thesis by auto
qed

text \<open>
  Claim C6, as amended. For an enclosure classified as H series, \<open>set_slot_status\<close>
  translates the slot through a fixed table of twelve entries, for the slots 1 to 12.
  A slot outside the table yields the error \<open>CallError\<close> with \<open>ENOENT\<close> and no backend
  call; a slot of the table makes one call of the sysfs toggle at the mapped ordinal,
  and a missing sysfs path there yields the same \<open>ENOENT\<close> error.
\<close>

theorem set_slot_status_hseries:
  assumes nvme: "enclosure_id \<notin> set nvme_ids"
    and model: "q_model info = ''H Series''"
  shows "map fst sysfs_to_ui = [1, 2, 3, 4, 5, 6, 7, 8, 9, 10, 11, 12]
       \<and> (map_of sysfs_to_ui slot = None \<longleftrightarrow> slot < 1 \<or> 12 < slot)
       \<and> (map_of sysfs_to_ui slot = None \<longrightarrow>
            set_slot_status be (info # rest) enclosure_id slot status =
              ([], Inl (CallError (Slot_not_found slot) ENOENT)))
       \<and> (\<forall>mapped_slot. map_of sysfs_to_ui slot = Some mapped_slot \<longrightarrow>
            set_slot_status be (info # rest) enclosure_id slot status =
              ([Toggle_enclosure_slot_identifier
                  (''/sys/class/enclosure/'' @ removeprefix (q_bsg info) ''bsg/'')
                  mapped_slot status True],
               if toggle_missing be
                    (''/sys/class/enclosure/'' @ removeprefix (q_bsg info) ''bsg/'') mapped_slot
               then Inl (CallError (Slot_not_found slot) ENOENT) else Inr ()))"
proof -
  have ids: "enclosure_id \<noteq> ''r30_nvme_enclosure''" "enclosure_id \<noteq> ''f60_nvme_enclosure''"
    "enclosure_id \<noteq> ''f100_nvme_enclosure''" "enclosure_id \<noteq> ''f130_nvme_enclosure''"
    using nvme by (auto simp add: nvme_ids_def)
  have keys: "map fst sysfs_to_ui = [1, 2, 3, 4, 5, 6, 7, 8, 9, 10, 11, 12]"
    by (simp add: sysfs_to_ui_def)
  have none: "set_slot_status be (info # rest) enclosure_id slot status =
              ([], Inl (CallError (Slot_not_found slot) ENOENT))"
    if "map_of sysfs_to_ui slot = None"
    using ids model that by (simp add: set_slot_status_def)
  have some: "set_slot_status be (info # rest) enclosure_id slot status =
              ([Toggle_enclosure_slot_identifier
                  (''/sys/class/enclosure/'' @ removeprefix (q_bsg info) ''bsg/'')
                  mapped_slot status True],
               if toggle_missing be
                    (''/sys/class/enclosure/'' @ removeprefix (q_bsg info) ''bsg/'') mapped_slot
               then Inl (CallError (Slot_not_found slot) ENOENT) else Inr ())"
    if "map_of sysfs_to_ui slot = Some mapped_slot" for mapped_slot
    using ids model that by (simp add: set_slot_status_def Let_def)
  from keys sysfs_to_ui_keys none some show ?thesis by blast
qed

theorem set_slot_status_hseries_witness:
  "set_slot_status accepting [hseries_info] ''3b0ad6d1c00007c0'' 13 ''IDENTIFY'' =
     ([], Inl (CallError (Slot_not_found 13) ENOENT))
   \<and> set_slot_status missing_path [hseries_info] ''3b0ad6d1c00007c0'' 9 ''IDENTIFY'' =
     ([Toggle_enclosure_slot_identifier ''/sys/class/enclosure/0:0:0:0'' ''0'' ''IDENTIFY'' True],
      Inl (CallError (Slot_not_found 9) ENOENT))"
proof -
  have h1: "''3b0ad6d1c00007c0'' \<notin> set nvme_ids"
    by code_simp
  have h2: "q_model hseries_info = ''H Series''"
    by code_simp
  have n: "map_of sysfs_to_ui 13 = None" and s: "map_of sysfs_to_ui 9 = Some ''0''"
    by code_simp+
  have p: "''/sys/class/enclosure/'' @ removeprefix (q_bsg hseries_info) ''bsg/'' =
             ''/sys/class/enclosure/0:0:0:0''"
    by code_simp
  have t: "toggle_missing missing_path ''/sys/class/enclosure/0:0:0:0'' ''0''"
    by (simp add: missing_path_def)
  show ?thesis
    using set_slot_status_hseries [OF h1 h2, of 13 accepting "[]" "''IDENTIFY''"]
      set_slot_status_hseries [OF h1 h2, of 9 missing_path "[]" "''IDENTIFY''"] n s t
    by (simp only: p) simp
qed

text \<open>
  Claim C6 as stated fails: the table has twelve entries, not fifteen, and the slots
  13 to 15 are not in it.
\<close>

theorem set_slot_status_hseries_counterexample:
  "length sysfs_to_ui = 12
   \<and> map_of sysfs_to_ui 13 = None \<and> map_of sysfs_to_ui 14 = None
   \<and> map_of sysfs_to_ui 15 = None"
  by code_simp


end
